theory Spec2Isabelle
  imports Complex_Main "HOL-Library.Sublist" "HOL-Library.Multiset"
begin

section \<open>Data model\<close>

text \<open>
  The records follow the interfaces of \<^verbatim>\<open>types.ts\<close>, restricted to the fields the
  matcher and the reconciler read or write; the records of the bank transactions, of the
  matches and of the two results are read off the code that builds them in
  \<^verbatim>\<open>ynab-client.ts\<close>. Field names are those of the source; where two
  interfaces share a field name, or a name is a HOL constant (\<open>id\<close>), a suffix or prefix
  tells them apart: \<open>id_tx\<close>, \<open>bank_date\<close>, \<open>save_amount\<close>, \<open>upd_id\<close>, \<open>payee_ident\<close>.

  Ledger amounts and balances are integers (milliunits). Bank amounts and the target balance
  are decimal currency numbers; they are modelled as rationals (every finite double is one).
  Strings are lists of characters, each standing for one code unit below 256.
\<close>

datatype cleared_status = Cleared | Uncleared | Reconciled

record TransactionDetail =
  id_tx :: string
  date :: string
  amount :: int
  memo :: "string option"
  cleared :: cleared_status
  approved :: bool
  account_id :: string
  payee_id :: "string option"
  payee_name :: "string option"
  category_id :: "string option"
  deleted :: bool

record BankTransaction =
  bank_date :: string
  bank_amount :: rat
  payee :: "string option"

datatype confidence = Exact | High | Medium | Low

text \<open>
  The reasons attached to a match are kept as structured values; the source renders each as
  a sentence (\<^verbatim>\<open>'Exact amount match'\<close>, \<^verbatim>\<open>`Date within ${daysDiff} days`\<close>, ...).
  \<open>None\<close> in \<open>DateWithinDays\<close> is the day count \<^verbatim>\<open>NaN\<close>.
\<close>

datatype reason =
    ExactAmountMatch
  | AmountWithin1 rat int
  | SameDate
  | DateWithin1Day
  | DateWithinDays "int option"
  | ExactPayeeMatch
  | SimilarPayeeName

record TransactionMatch =
  bankTransaction :: BankTransaction
  ynabTransaction :: TransactionDetail
  matchConfidence :: confidence
  matchReasons :: "reason list"

record MatchSummary =
  totalBankTransactions :: nat
  totalYNABTransactions :: nat
  matchedCount :: nat
  matchRate :: rat

record TransactionMatchResult =
  matched :: "TransactionMatch list"
  unmatchedBank :: "BankTransaction list"
  unmatchedYNAB :: "TransactionDetail list"
  summary :: MatchSummary

record Account =
  name :: string
  balance :: int

record Payee =
  payee_ident :: string
  payee_label :: string

record UpdateTransaction =
  upd_id :: string
  upd_cleared :: cleared_status

record SaveTransaction =
  save_account_id :: string
  save_date :: string
  save_amount :: int
  save_payee_id :: "string option"
  save_payee_name :: "string option"
  save_category_id :: "string option"
  save_memo :: string
  save_cleared :: cleared_status
  save_approved :: bool

record ReconciliationResult =
  res_account_id :: string
  account_name :: string
  reconciliation_date :: string
  transactions_reconciled :: nat
  starting_balance :: int
  target_balance :: int
  actual_balance :: int
  adjustment_needed :: int
  adjustment_created :: bool
  adjustment_transaction :: "TransactionDetail option"
  errors :: "string list option"

text \<open>A thrown JavaScript error: \<^verbatim>\<open>Error\<close> or \<^verbatim>\<open>RangeError\<close>, with its message.\<close>

datatype error = Error string | RangeError string

fun message :: "error \<Rightarrow> string" where
  "message (Error m) = m"
| "message (RangeError m) = m"

section \<open>The JavaScript runtime\<close>

text \<open>
  A \<^verbatim>\<open>Date\<close> object is its time value: \<open>Some t\<close> (milliseconds since the epoch) or
  \<open>None\<close> for an Invalid Date, whose \<^verbatim>\<open>getTime()\<close> is \<^verbatim>\<open>NaN\<close>.

  What the runtime decides (which strings parse as dates, the local calendar, the printed
  forms, the rounding of an arithmetic result to a double) is a parameter of the model, so
  every theorem holds whatever the runtime does there:
  \<^item> \<open>parseDate s\<close> is \<^verbatim>\<open>new Date(s)\<close>;
  \<^item> \<open>addDays t n\<close> is the time value after \<^verbatim>\<open>d.setDate(d.getDate() + n)\<close> on a valid date
    with time value \<open>t\<close> (\<open>None\<close> when the result leaves the range of dates);
  \<^item> \<open>isoDay t\<close> is \<^verbatim>\<open>d.toISOString().split('T')[0]\<close> on a valid date;
  \<^item> \<open>fl x\<close> is the double nearest to the exact value \<open>x\<close>;
  \<^item> \<open>toFixed2 x\<close> is \<^verbatim>\<open>x.toFixed(2)\<close>.
\<close>

record runtime =
  parseDate :: "string \<Rightarrow> int option"
  addDays :: "int \<Rightarrow> rat \<Rightarrow> int option"
  isoDay :: "int \<Rightarrow> string"
  fl :: "rat \<Rightarrow> rat"
  toFixed2 :: "rat \<Rightarrow> string"

text \<open>Numbers that can be \<^verbatim>\<open>NaN\<close> or infinite: the results of \<^verbatim>\<open>getTime\<close>,
  \<^verbatim>\<open>Math.min\<close> and \<^verbatim>\<open>Math.max\<close>.\<close>

datatype timeval = Time int | NaN | PosInfinity | NegInfinity

fun getTime :: "int option \<Rightarrow> timeval" where
  "getTime (Some t) = Time t"
| "getTime None = NaN"

fun min2 :: "timeval \<Rightarrow> timeval \<Rightarrow> timeval" where
  "min2 NaN _ = NaN"
| "min2 _ NaN = NaN"
| "min2 NegInfinity _ = NegInfinity"
| "min2 _ NegInfinity = NegInfinity"
| "min2 PosInfinity y = y"
| "min2 x PosInfinity = x"
| "min2 (Time a) (Time b) = Time (min a b)"

fun max2 :: "timeval \<Rightarrow> timeval \<Rightarrow> timeval" where
  "max2 NaN _ = NaN"
| "max2 _ NaN = NaN"
| "max2 PosInfinity _ = PosInfinity"
| "max2 _ PosInfinity = PosInfinity"
| "max2 NegInfinity y = y"
| "max2 x NegInfinity = x"
| "max2 (Time a) (Time b) = Time (max a b)"

text \<open>\<^verbatim>\<open>Math.min(...xs)\<close> and \<^verbatim>\<open>Math.max(...xs)\<close>: with no argument they are
  \<^verbatim>\<open>Infinity\<close> and \<^verbatim>\<open>-Infinity\<close>.\<close>

definition mathMin :: "timeval list \<Rightarrow> timeval" where
  "mathMin xs = foldr min2 xs PosInfinity"

definition mathMax :: "timeval list \<Rightarrow> timeval" where
  "mathMax xs = foldr max2 xs NegInfinity"

text \<open>\<^verbatim>\<open>new Date(number)\<close>: only a finite number gives a valid date (the least and the
  greatest of valid time values are in the range of dates).\<close>

fun newDate :: "timeval \<Rightarrow> int option" where
  "newDate (Time t) = Some t"
| "newDate _ = None"

text \<open>\<^verbatim>\<open>d.setDate(d.getDate() + n)\<close>: an Invalid Date stays invalid.\<close>

fun setDateOffset :: "runtime \<Rightarrow> int option \<Rightarrow> rat \<Rightarrow> int option" where
  "setDateOffset rt None n = None"
| "setDateOffset rt (Some t) n = addDays rt t n"

text \<open>\<^verbatim>\<open>d1 <= d2\<close> on dates compares the time values; with \<^verbatim>\<open>NaN\<close> it is false.\<close>

fun date_le :: "int option \<Rightarrow> int option \<Rightarrow> bool" where
  "date_le (Some a) (Some b) = (a \<le> b)"
| "date_le _ _ = False"

text \<open>Comparisons of a day count that may be \<^verbatim>\<open>NaN\<close>: all are false on \<^verbatim>\<open>NaN\<close>.\<close>

fun days_gt :: "int option \<Rightarrow> rat \<Rightarrow> bool" where
  "days_gt (Some d) x = (of_int d > x)"
| "days_gt None x = False"

fun days_le :: "int option \<Rightarrow> rat \<Rightarrow> bool" where
  "days_le (Some d) x = (of_int d \<le> x)"
| "days_le None x = False"

text \<open>\<^verbatim>\<open>Math.round(x * 1000)\<close>: the product is rounded to a double, then to the nearest
  integer, halves upwards.\<close>

definition toMilliunits :: "runtime \<Rightarrow> rat \<Rightarrow> int" where
  "toMilliunits rt x = \<lfloor>fl rt (x * 1000) + 1 / 2\<rfloor>"

subsection \<open>Strings\<close>

text \<open>White space of \<^verbatim>\<open>trim\<close> and of the pattern \<^verbatim>\<open>\s\<close> among the code units below 256:
  tab, line feed, vertical tab, form feed, carriage return, space, no-break space.\<close>

definition isSpace :: "char \<Rightarrow> bool" where
  "isSpace c = (of_char c \<in> {9, 10, 11, 12, 13, 32, 160 :: nat})"

definition lowerChar :: "char \<Rightarrow> char" where
  "lowerChar c =
     (let n = of_char c :: nat
      in if (65 \<le> n \<and> n \<le> 90) \<or> (192 \<le> n \<and> n \<le> 222 \<and> n \<noteq> 215)
         then char_of (n + 32) else c)"

definition toLowerCase :: "string \<Rightarrow> string" where
  "toLowerCase s = map lowerChar s"

definition trim :: "string \<Rightarrow> string" where
  "trim s = rev (dropWhile isSpace (rev (dropWhile isSpace s)))"

text \<open>\<^verbatim>\<open>s.split(/\s+/)\<close>: the pieces between maximal runs of white space; a leading or a
  trailing run leaves an empty piece, and the empty string splits into one empty piece.\<close>

fun splitWs :: "string \<Rightarrow> string list" where
  "splitWs [] = [[]]"
| "splitWs (c # cs) =
     (if isSpace c
      then (if cs \<noteq> [] \<and> isSpace (hd cs) then splitWs cs else [] # splitWs cs)
      else (case splitWs cs of w # ws \<Rightarrow> (c # w) # ws | [] \<Rightarrow> [[c]]))"

text \<open>\<^verbatim>\<open>s.includes(t)\<close>: \<open>t\<close> occurs in \<open>s\<close> as a contiguous piece.\<close>

definition includesStr :: "string \<Rightarrow> string \<Rightarrow> bool" where
  "includesStr s t = sublist t s"

section \<open>The transaction matcher\<close>

text \<open>The helper functions of \<^verbatim>\<open>matchBankTransactions\<close>. The day count is
  \<^verbatim>\<open>Math.ceil(Math.abs(d2.getTime() - d1.getTime()) / (1000 * 60 * 60 * 24))\<close>, which is
  \<^verbatim>\<open>NaN\<close> when one of the dates is invalid. The difference and the quotient are
  computed in doubles, whence the two roundings.\<close>

definition dateDifference :: "runtime \<Rightarrow> string \<Rightarrow> string \<Rightarrow> int option" where
  "dateDifference rt date1 date2 =
     (case (parseDate rt date1, parseDate rt date2) of
        (Some d1, Some d2) \<Rightarrow>
          let diffTime = \<bar>fl rt (of_int d2 - of_int d1)\<bar>
          in Some \<lceil>fl rt (diffTime / (1000 * 60 * 60 * 24))\<rceil>
      | _ \<Rightarrow> None)"

definition amountMatches :: "int \<Rightarrow> int \<Rightarrow> int \<Rightarrow> bool" where
  "amountMatches amount1 amount2 tolerance = (\<bar>amount1 - amount2\<bar> \<le> tolerance)"

text \<open>A payee that is \<^verbatim>\<open>undefined\<close>, \<^verbatim>\<open>null\<close> or the empty string is falsy.\<close>

fun falsy :: "string option \<Rightarrow> bool" where
  "falsy None = True"
| "falsy (Some s) = (s = [])"

text \<open>
  \<^verbatim>\<open>payeeSimilarity\<close>. The quotient \<^verbatim>\<open>matches / Math.max(words1.length, words2.length)\<close>
  of two token counts is kept exact: the tests \<^verbatim>\<open>=== 1\<close> and \<^verbatim>\<open>> 0.5\<close> that the matcher
  makes on it have the same outcome on the double.
\<close>

definition wordMatches :: "string list \<Rightarrow> string \<Rightarrow> bool" where
  "wordMatches words2 word1 =
     list_ex (\<lambda>word2. includesStr word2 word1 \<or> includesStr word1 word2) words2"

definition payeeSimilarity :: "string option \<Rightarrow> string option \<Rightarrow> rat" where
  "payeeSimilarity payee1 payee2 =
     (if falsy payee1 \<or> falsy payee2 then 0
      else
        let p1 = trim (toLowerCase (the payee1));
            p2 = trim (toLowerCase (the payee2))
        in if p1 = p2 then 1
           else
             let words1 = splitWs p1;
                 words2 = splitWs p2;
                 matches = length (filter (wordMatches words2) words1)
             in of_nat matches / of_nat (max (length words1) (length words2)))"

fun confidenceOrder :: "confidence \<Rightarrow> nat" where
  "confidenceOrder Exact = 4"
| "confidenceOrder High = 3"
| "confidenceOrder Medium = 2"
| "confidenceOrder Low = 1"

text \<open>The body of the inner loop, for one ledger transaction that has not been consumed:
  \<open>None\<close> where the source says \<^verbatim>\<open>continue\<close> (date outside the tolerance, amount
  outside the slack), else the confidence and the reasons of the pair.\<close>

definition amountReasons :: "BankTransaction \<Rightarrow> TransactionDetail \<Rightarrow> bool \<Rightarrow> reason list" where
  "amountReasons bankTx ynabTx exactAmountMatch =
     (if exactAmountMatch then [ExactAmountMatch]
      else [AmountWithin1 (bank_amount bankTx) (amount ynabTx)])"

definition dateReasons :: "int option \<Rightarrow> reason list" where
  "dateReasons daysDiff =
     (if daysDiff = Some 0 then [SameDate]
      else if daysDiff = Some 1 then [DateWithin1Day]
      else [DateWithinDays daysDiff])"

definition payeeReasons :: "rat \<Rightarrow> reason list" where
  "payeeReasons payeeSim =
     (if payeeSim = 1 then [ExactPayeeMatch]
      else if payeeSim > 1 / 2 then [SimilarPayeeName]
      else [])"

definition confidenceLevel :: "bool \<Rightarrow> int option \<Rightarrow> rat \<Rightarrow> rat \<Rightarrow> confidence" where
  "confidenceLevel exactAmountMatch daysDiff tolerance payeeSim =
     (if exactAmountMatch \<and> daysDiff = Some 0 \<and> payeeSim = 1 then Exact
      else if exactAmountMatch \<and> days_le daysDiff 1 \<and> payeeSim > 1 / 2 then High
      else if exactAmountMatch \<and> days_le daysDiff tolerance then Medium
      else Low)"

definition assess ::
  "runtime \<Rightarrow> rat \<Rightarrow> BankTransaction \<Rightarrow> TransactionDetail \<Rightarrow> (confidence \<times> reason list) option"
where
  "assess rt tolerance bankTx ynabTx =
     (let bankAmountMilliunits = toMilliunits rt (bank_amount bankTx);
          daysDiff = dateDifference rt (bank_date bankTx) (date ynabTx)
      in if days_gt daysDiff tolerance then None
         else
           let exactAmountMatch = (bankAmountMilliunits = amount ynabTx);
               closeAmountMatch = amountMatches bankAmountMilliunits (amount ynabTx) 1000
           in if \<not> exactAmountMatch \<and> \<not> closeAmountMatch then None
              else
                let payeeSim =
                      payeeSimilarity (payee bankTx)
                        (if falsy (payee_name ynabTx) then None else payee_name ynabTx)
                in Some (confidenceLevel exactAmountMatch daysDiff tolerance payeeSim,
                         amountReasons bankTx ynabTx exactAmountMatch
                           @ dateReasons daysDiff @ payeeReasons payeeSim))"

text \<open>The variables of the inner loop: \<^verbatim>\<open>bestMatch\<close> (\<open>None\<close> is \<^verbatim>\<open>null\<close>),
  \<^verbatim>\<open>bestConfidence\<close>, \<^verbatim>\<open>bestReasons\<close>.\<close>

record best =
  bestMatch :: "TransactionDetail option"
  bestConfidence :: confidence
  bestReasons :: "reason list"

definition initBest :: best where
  "initBest = \<lparr>bestMatch = None, bestConfidence = Low, bestReasons = []\<rparr>"

definition candidateStep ::
  "runtime \<Rightarrow> rat \<Rightarrow> string set \<Rightarrow> BankTransaction \<Rightarrow> best \<Rightarrow> TransactionDetail \<Rightarrow> best"
where
  "candidateStep rt tolerance usedYnabIds bankTx b ynabTx =
     (if id_tx ynabTx \<in> usedYnabIds then b
      else
        case assess rt tolerance bankTx ynabTx of
          None \<Rightarrow> b
        | Some (conf, reasons) \<Rightarrow>
            if bestMatch b = None \<or> confidenceOrder conf > confidenceOrder (bestConfidence b)
            then \<lparr>bestMatch = Some ynabTx, bestConfidence = conf, bestReasons = reasons\<rparr>
            else b)"

definition findBest ::
  "runtime \<Rightarrow> rat \<Rightarrow> string set \<Rightarrow> TransactionDetail list \<Rightarrow> BankTransaction \<Rightarrow> best"
where
  "findBest rt tolerance usedYnabIds ynabTransactions bankTx =
     foldl (candidateStep rt tolerance usedYnabIds bankTx) initBest ynabTransactions"

text \<open>The variables of the outer loop: \<^verbatim>\<open>matched\<close>, \<^verbatim>\<open>usedYnabIds\<close>,
  \<^verbatim>\<open>unmatchedBank\<close>.\<close>

record matching =
  st_matched :: "TransactionMatch list"
  st_usedYnabIds :: "string set"
  st_unmatchedBank :: "BankTransaction list"

definition initMatching :: matching where
  "initMatching = \<lparr>st_matched = [], st_usedYnabIds = {}, st_unmatchedBank = []\<rparr>"

definition bankStep ::
  "runtime \<Rightarrow> rat \<Rightarrow> TransactionDetail list \<Rightarrow> matching \<Rightarrow> BankTransaction \<Rightarrow> matching"
where
  "bankStep rt tolerance ynabTransactions st bankTx =
     (let b = findBest rt tolerance (st_usedYnabIds st) ynabTransactions bankTx
      in case bestMatch b of
           Some m \<Rightarrow>
             st\<lparr>st_matched := st_matched st @
                    [\<lparr>bankTransaction = bankTx, ynabTransaction = m,
                      matchConfidence = bestConfidence b, matchReasons = bestReasons b\<rparr>],
                 st_usedYnabIds := insert (id_tx m) (st_usedYnabIds st)\<rparr>
         | None \<Rightarrow> st\<lparr>st_unmatchedBank := st_unmatchedBank st @ [bankTx]\<rparr>)"

text \<open>\<^verbatim>\<open>[...bankTransactions].sort((a, b) => Math.abs(b.amount) - Math.abs(a.amount))\<close>:
  a stable sort by descending absolute amount.\<close>

definition sortedBankTransactions :: "BankTransaction list \<Rightarrow> BankTransaction list" where
  "sortedBankTransactions bankTransactions =
     sort_key (\<lambda>t. - \<bar>bank_amount t\<bar>) bankTransactions"

text \<open>The matching proper (from \<^verbatim>\<open>// Match transactions\<close> to the \<^verbatim>\<open>return\<close>), on the
  bank transactions and the ledger transactions of the date window.\<close>

definition matchTransactions ::
  "runtime \<Rightarrow> rat \<Rightarrow> BankTransaction list \<Rightarrow> TransactionDetail list \<Rightarrow> TransactionMatchResult"
where
  "matchTransactions rt tolerance bankTransactions ynabTransactions =
     (let st = foldl (bankStep rt tolerance ynabTransactions) initMatching
                 (sortedBankTransactions bankTransactions);
          unmatched = filter (\<lambda>t. id_tx t \<notin> st_usedYnabIds st) ynabTransactions
      in \<lparr>matched = st_matched st,
          unmatchedBank = st_unmatchedBank st,
          unmatchedYNAB = unmatched,
          summary =
            \<lparr>totalBankTransactions = length bankTransactions,
             totalYNABTransactions = length ynabTransactions,
             matchedCount = length (st_matched st),
             matchRate =
               (if length bankTransactions > 0
                then fl rt (of_nat (length (st_matched st)) / of_nat (length bankTransactions))
                else 0)\<rparr>\<rparr>)"

section \<open>The ledger service\<close>

text \<open>
  The remote ledger is reached through the client's methods, each of which either returns
  the decoded response or throws. One invocation of the matcher or of the reconciler calls
  each method at most once, except \<^verbatim>\<open>getAccount\<close>, which the reconciler calls twice. The
  answers of the service during one invocation are given by a record: \<open>getAccount api n\<close>
  is the answer to call number \<open>n\<close> (from 0) of \<^verbatim>\<open>getAccount\<close>, and the other fields are
  the answers to the call with these arguments. Nothing relates the answers to each other,
  so every behaviour of the remote service is covered.
\<close>

record ledger =
  getAccount :: "nat \<Rightarrow> string \<Rightarrow> string \<Rightarrow> error + Account"
  getAccountTransactions :: "string \<Rightarrow> string \<Rightarrow> string option \<Rightarrow> error + TransactionDetail list"
  bulkUpdateTransactions :: "string \<Rightarrow> UpdateTransaction list \<Rightarrow> error + TransactionDetail list"
  getPayees :: "string \<Rightarrow> error + Payee list"
  createTransaction :: "string \<Rightarrow> SaveTransaction \<Rightarrow> error + TransactionDetail"

text \<open>The whole of \<^verbatim>\<open>matchBankTransactions\<close>: the date range of the bank transactions,
  the fetch, the date filter, the matching. \<^verbatim>\<open>toISOString\<close> throws a \<^verbatim>\<open>RangeError\<close> on
  an Invalid Date.\<close>

definition matchBankTransactions ::
  "runtime \<Rightarrow> ledger \<Rightarrow> string \<Rightarrow> string \<Rightarrow> BankTransaction list \<Rightarrow> rat
     \<Rightarrow> error + TransactionMatchResult"
where
  "matchBankTransactions rt api budgetId accountId bankTransactions tolerance =
     (let bankDates = map (\<lambda>t. parseDate rt (bank_date t)) bankTransactions;
          minDate0 = newDate (mathMin (map getTime bankDates));
          maxDate0 = newDate (mathMax (map getTime bankDates));
          minDate = setDateOffset rt minDate0 (- tolerance);
          maxDate = setDateOffset rt maxDate0 tolerance
      in case minDate of
           None \<Rightarrow> Inl (RangeError ''Invalid time value'')
         | Some t \<Rightarrow>
             (case getAccountTransactions api budgetId accountId (Some (isoDay rt t)) of
                Inl e \<Rightarrow> Inl e
              | Inr transactions \<Rightarrow>
                  let ynabTransactions =
                        filter (\<lambda>t. date_le (parseDate rt (date t)) maxDate) transactions
                  in Inr (matchTransactions rt tolerance bankTransactions ynabTransactions)))"

section \<open>The reconciler\<close>

definition RECONCILIATION_PAYEE_ID :: string where
  "RECONCILIATION_PAYEE_ID = ''f942249d-8be6-4c16-8cb8-3007897cdfc8''"

definition INFLOW_CATEGORY_ID :: string where
  "INFLOW_CATEGORY_ID = ''27e74120-8c36-43df-bac2-2ac4b033879e''"

text \<open>The requests sent to the service, in the order of the calls.\<close>

datatype call =
    GetAccount string string
  | GetAccountTransactions string string
  | BulkUpdateTransactions string "UpdateTransaction list"
  | GetPayees string
  | CreateTransaction string SaveTransaction

text \<open>The outer \<^verbatim>\<open>catch\<close> rethrows whatever was thrown inside.\<close>

definition reconciliationFailed :: "error \<Rightarrow> error" where
  "reconciliationFailed e = Error (''Reconciliation failed: '' @ message e)"

definition transactionsToReconcile ::
  "runtime \<Rightarrow> string \<Rightarrow> TransactionDetail list \<Rightarrow> TransactionDetail list"
where
  "transactionsToReconcile rt reconciliationDate transactions =
     filter (\<lambda>t. date_le (parseDate rt (date t)) (parseDate rt reconciliationDate) \<and>
                 (cleared t = Cleared \<or> cleared t = Uncleared)) transactions"

definition reconcileUpdates :: "TransactionDetail list \<Rightarrow> UpdateTransaction list" where
  "reconcileUpdates ts = map (\<lambda>t. \<lparr>upd_id = id_tx t, upd_cleared = Reconciled\<rparr>) ts"

text \<open>Step 3: the number of transactions marked, the warnings and the calls of the step.\<close>

definition markReconciled ::
  "ledger \<Rightarrow> string \<Rightarrow> TransactionDetail list \<Rightarrow> nat \<times> string list \<times> call list"
where
  "markReconciled api budgetId toReconcile =
     (if length toReconcile > 0
      then
        let updates = reconcileUpdates toReconcile
        in case bulkUpdateTransactions api budgetId updates of
             Inr updated \<Rightarrow> (length updated, [], [BulkUpdateTransactions budgetId updates])
           | Inl e \<Rightarrow>
               (0, [''Failed to update some transactions: '' @ message e],
                [BulkUpdateTransactions budgetId updates])
      else (0, [], []))"

definition adjustmentData ::
  "runtime \<Rightarrow> string \<Rightarrow> rat \<Rightarrow> string \<Rightarrow> string option \<Rightarrow> int \<Rightarrow> Payee option
     \<Rightarrow> SaveTransaction"
where
  "adjustmentData rt accountId targetBalance reconciliationDate adjustmentMemo
       adjustmentNeeded reconciliationPayee =
     \<lparr>save_account_id = accountId,
      save_date = reconciliationDate,
      save_amount = adjustmentNeeded,
      save_payee_id =
        (if reconciliationPayee \<noteq> None then Some RECONCILIATION_PAYEE_ID else None),
      save_payee_name =
        (if reconciliationPayee \<noteq> None then None else Some ''Manual Balance Adjustment''),
      save_category_id = (if adjustmentNeeded > 0 then Some INFLOW_CATEGORY_ID else None),
      save_memo =
        (if falsy adjustmentMemo
         then ''Reconciliation adjustment to match balance of $'' @ toFixed2 rt targetBalance
         else the adjustmentMemo),
      save_cleared = Reconciled,
      save_approved = True\<rparr>"

text \<open>Step 5: whether the adjustment was created, the created transaction, the warnings
  and the calls of the step.\<close>

definition createAdjustmentStep ::
  "runtime \<Rightarrow> ledger \<Rightarrow> string \<Rightarrow> string \<Rightarrow> rat \<Rightarrow> string \<Rightarrow> bool \<Rightarrow> string option
     \<Rightarrow> int \<Rightarrow> bool \<times> TransactionDetail option \<times> string list \<times> call list"
where
  "createAdjustmentStep rt api budgetId accountId targetBalance reconciliationDate
       createAdjustment adjustmentMemo adjustmentNeeded =
     (if adjustmentNeeded \<noteq> 0 \<and> createAdjustment
      then
       (case getPayees api budgetId of
          Inl e \<Rightarrow>
            (False, None, [''Failed to create adjustment transaction: '' @ message e],
             [GetPayees budgetId])
        | Inr payees \<Rightarrow>
            let reconciliationPayee =
                  find (\<lambda>p. payee_ident p = RECONCILIATION_PAYEE_ID) payees;
                warn =
                  (if reconciliationPayee = None
                   then [''System reconciliation payee not found. Using manual adjustment instead.'']
                   else []);
                draft = adjustmentData rt accountId targetBalance reconciliationDate
                          adjustmentMemo adjustmentNeeded reconciliationPayee
            in (case createTransaction api budgetId draft of
                  Inr t \<Rightarrow>
                    (True, Some t, warn, [GetPayees budgetId, CreateTransaction budgetId draft])
                | Inl e \<Rightarrow>
                    (False, None,
                     warn @ [''Failed to create adjustment transaction: '' @ message e],
                     [GetPayees budgetId, CreateTransaction budgetId draft])))
      else (False, None, [], []))"

text \<open>\<^verbatim>\<open>reconcileAccountWithAdjustment\<close>: the outcome or the thrown error, and the calls
  made.\<close>

definition reconcileAccountWithAdjustment ::
  "runtime \<Rightarrow> ledger \<Rightarrow> string \<Rightarrow> string \<Rightarrow> rat \<Rightarrow> string \<Rightarrow> bool \<Rightarrow> string option
     \<Rightarrow> (error + ReconciliationResult) \<times> call list"
where
  "reconcileAccountWithAdjustment rt api budgetId accountId targetBalance reconciliationDate
       createAdjustment adjustmentMemo =
     (case getAccount api 0 budgetId accountId of
        Inl e \<Rightarrow> (Inl (reconciliationFailed e), [GetAccount budgetId accountId])
      | Inr account \<Rightarrow>
     (case getAccountTransactions api budgetId accountId None of
        Inl e \<Rightarrow>
          (Inl (reconciliationFailed e),
           [GetAccount budgetId accountId, GetAccountTransactions budgetId accountId])
      | Inr transactions \<Rightarrow>
     (case markReconciled api budgetId
             (transactionsToReconcile rt reconciliationDate transactions) of
        (transactionsReconciled, errors1, calls1) \<Rightarrow>
     (let calls4 = [GetAccount budgetId accountId, GetAccountTransactions budgetId accountId]
                     @ calls1 @ [GetAccount budgetId accountId]
      in case getAccount api 1 budgetId accountId of
        Inl e \<Rightarrow> (Inl (reconciliationFailed e), calls4)
      | Inr updatedAccount \<Rightarrow>
     (let startingBalance = balance account;
          actualBalance = balance updatedAccount;
          targetBalanceMilliunits = toMilliunits rt targetBalance;
          adjustmentNeeded = targetBalanceMilliunits - actualBalance
      in case createAdjustmentStep rt api budgetId accountId targetBalance reconciliationDate
                createAdjustment adjustmentMemo adjustmentNeeded of
        (adjustmentCreated, adjustmentTransaction, errors2, calls2) \<Rightarrow>
          (Inr \<lparr>res_account_id = accountId,
                account_name = name account,
                reconciliation_date = reconciliationDate,
                transactions_reconciled = transactionsReconciled,
                starting_balance = startingBalance,
                target_balance = targetBalanceMilliunits,
                actual_balance =
                  (if adjustmentCreated then targetBalanceMilliunits else actualBalance),
                adjustment_needed = adjustmentNeeded,
                adjustment_created = adjustmentCreated,
                adjustment_transaction = adjustmentTransaction,
                errors =
                  (if length (errors1 @ errors2) > 0 then Some (errors1 @ errors2)
                   else None)\<rparr>,
           calls4 @ calls2))))))"

section \<open>A concrete runtime\<close>

text \<open>
  For the examples: a runtime in the UTC time zone that reads dates in the date-only form
  \<^verbatim>\<open>YYYY-MM-DD\<close> (a time value at midnight UTC, as \<^verbatim>\<open>new Date\<close> gives for that form),
  prints them in the same form (years 0 to 9999), shifts by whole days, and multiplies
  exactly.
\<close>

definition digitVal :: "char \<Rightarrow> int option" where
  "digitVal c =
     (let n = of_char c :: int in if 48 \<le> n \<and> n \<le> 57 then Some (n - 48) else None)"

fun digitsVal :: "string \<Rightarrow> int option" where
  "digitsVal [] = Some 0"
| "digitsVal (c # cs) =
     (case (digitVal c, digitsVal cs) of
        (Some d, Some r) \<Rightarrow> Some (d * 10 ^ length cs + r)
      | _ \<Rightarrow> None)"

definition isLeapYear :: "int \<Rightarrow> bool" where
  "isLeapYear y = (y mod 4 = 0 \<and> (y mod 100 \<noteq> 0 \<or> y mod 400 = 0))"

definition daysInMonth :: "int \<Rightarrow> int \<Rightarrow> int" where
  "daysInMonth y m =
     (if m = 2 then (if isLeapYear y then 29 else 28)
      else if m \<in> {4, 6, 9, 11} then 30 else 31)"

text \<open>Days from 1970-01-01 to the given day of the proleptic Gregorian calendar.\<close>

definition daysFromCivil :: "int \<Rightarrow> int \<Rightarrow> int \<Rightarrow> int" where
  "daysFromCivil y m d =
     (let y1 = (if m \<le> 2 then y - 1 else y);
          era = y1 div 400;
          yoe = y1 - era * 400;
          doy = (153 * (if m > 2 then m - 3 else m + 9) + 2) div 5 + d - 1;
          doe = yoe * 365 + yoe div 4 - yoe div 100 + doy
      in era * 146097 + doe - 719468)"

definition civilFromDays :: "int \<Rightarrow> int \<times> int \<times> int" where
  "civilFromDays z0 =
     (let z = z0 + 719468;
          era = z div 146097;
          doe = z - era * 146097;
          yoe = (doe - doe div 1460 + doe div 36524 - doe div 146096) div 365;
          doy = doe - (365 * yoe + yoe div 4 - yoe div 100);
          mp = (5 * doy + 2) div 153;
          d = doy - (153 * mp + 2) div 5 + 1;
          m = (if mp < 10 then mp + 3 else mp - 9);
          y = yoe + era * 400 + (if m \<le> 2 then 1 else 0)
      in (y, m, d))"

definition isoDateParse :: "string \<Rightarrow> int option" where
  "isoDateParse s =
     (if length s = 10 \<and> s ! 4 = CHR ''-'' \<and> s ! 7 = CHR ''-''
      then
        (case (digitsVal (take 4 s), digitsVal (take 2 (drop 5 s)), digitsVal (drop 8 s)) of
           (Some y, Some m, Some d) \<Rightarrow>
             if 1 \<le> m \<and> m \<le> 12 \<and> 1 \<le> d \<and> d \<le> daysInMonth y m
             then Some (daysFromCivil y m d * 86400000)
             else None
         | _ \<Rightarrow> None)
      else None)"

definition digitChar :: "int \<Rightarrow> char" where
  "digitChar n = char_of (48 + nat (n mod 10))"

definition isoDatePrint :: "int \<Rightarrow> string" where
  "isoDatePrint t =
     (case civilFromDays (t div 86400000) of
        (y, m, d) \<Rightarrow>
          [digitChar (y div 1000), digitChar (y div 100), digitChar (y div 10), digitChar y,
           CHR ''-'', digitChar (m div 10), digitChar m,
           CHR ''-'', digitChar (d div 10), digitChar d])"

text \<open>The decimal digits of a number below \<open>10 ^ k\<close>, without leading zeros.\<close>

fun natDigits :: "nat \<Rightarrow> int \<Rightarrow> string" where
  "natDigits 0 n = []"
| "natDigits (Suc k) n =
     (if n < 10 then [digitChar n] else natDigits k (n div 10) @ [digitChar n])"

text \<open>\<^verbatim>\<open>x.toFixed(2)\<close>: the sign, then the nearest number of hundredths (the larger one
  on a tie) of the absolute value; below \<open>10 ^ 21\<close>, where the source prints no exponent.\<close>

definition toFixed2Exact :: "rat \<Rightarrow> string" where
  "toFixed2Exact x =
     (let n = \<lfloor>\<bar>x\<bar> * 100 + 1 / 2\<rfloor>
      in (if x < 0 then [CHR ''-''] else []) @ natDigits 21 (n div 100)
           @ [CHR ''.'', digitChar (n div 10), digitChar n])"

definition utcRuntime :: runtime where
  "utcRuntime =
     \<lparr>parseDate = isoDateParse,
      addDays = (\<lambda>t n. Some (t + (if n \<ge> 0 then \<lfloor>n\<rfloor> else \<lceil>n\<rceil>) * 86400000)),
      isoDay = isoDatePrint,
      fl = (\<lambda>x. x),
      toFixed2 = toFixed2Exact\<rparr>"

section \<open>Example data\<close>

definition exTx :: "string \<Rightarrow> string \<Rightarrow> int \<Rightarrow> string option \<Rightarrow> cleared_status \<Rightarrow> TransactionDetail" where
  "exTx i d a p c =
     \<lparr>id_tx = i, date = d, amount = a, memo = None, cleared = c, approved = True,
      account_id = ''acct-1'', payee_id = None, payee_name = p, category_id = None,
      deleted = False\<rparr>"

definition exTransactions :: "TransactionDetail list" where
  "exTransactions =
     [exTx ''t1'' ''2024-03-01'' (- 45000) (Some ''Acme Store'') Uncleared,
      exTx ''t2'' ''2024-03-02'' (- 12500) (Some ''Coffee Bar'') Cleared,
      exTx ''t3'' ''2024-02-20'' 250000 (Some ''Payroll'') Reconciled]"

definition exCreated :: "SaveTransaction \<Rightarrow> TransactionDetail" where
  "exCreated d =
     \<lparr>id_tx = ''t-new'', date = save_date d, amount = save_amount d,
      memo = Some (save_memo d), cleared = save_cleared d, approved = save_approved d,
      account_id = save_account_id d, payee_id = save_payee_id d,
      payee_name = save_payee_name d, category_id = save_category_id d, deleted = False\<rparr>"

text \<open>A service with the account \<open>Checking\<close> and the three transactions above. Its
  parameters are the balance at the second \<^verbatim>\<open>getAccount\<close> (or its failure), the answer to the
  batched update, the answer to \<^verbatim>\<open>getPayees\<close>, and whether \<^verbatim>\<open>createTransaction\<close>
  succeeds.\<close>

definition exLedger ::
  "(error + int) \<Rightarrow> (error + TransactionDetail list) \<Rightarrow> (error + Payee list) \<Rightarrow> bool \<Rightarrow> ledger"
where
  "exLedger bal2 upd pay ok =
     \<lparr>getAccount = (\<lambda>n b a.
        if n = 0 then Inr \<lparr>name = ''Checking'', balance = 118500\<rparr>
        else map_sum (\<lambda>e. e) (\<lambda>v. \<lparr>name = ''Checking'', balance = v\<rparr>) bal2),
      getAccountTransactions = (\<lambda>b a since. Inr exTransactions),
      bulkUpdateTransactions = (\<lambda>b us. upd),
      getPayees = (\<lambda>b. pay),
      createTransaction = (\<lambda>b d.
        if ok then Inr (exCreated d) else Inl (Error ''YNAB API Error: rate limited''))\<rparr>"

definition exPayees :: "Payee list" where
  "exPayees =
     [\<lparr>payee_ident = ''p-1'', payee_label = ''Acme Store''\<rparr>,
      \<lparr>payee_ident = RECONCILIATION_PAYEE_ID, payee_label = ''Reconciliation Balance Adjustment''\<rparr>]"

definition exMarked :: "TransactionDetail list" where
  "exMarked =
     [exTx ''t1'' ''2024-03-01'' (- 45000) (Some ''Acme Store'') Reconciled,
      exTx ''t2'' ''2024-03-02'' (- 12500) (Some ''Coffee Bar'') Reconciled]"

definition exBank :: "BankTransaction list" where
  "exBank =
     [\<lparr>bank_date = ''2024-03-02'', bank_amount = - 25 / 2, payee = Some ''COFFEE BAR 0042''\<rparr>,
      \<lparr>bank_date = ''2024-03-01'', bank_amount = - 45, payee = Some ''Acme Store''\<rparr>,
      \<lparr>bank_date = ''2024-03-03'', bank_amount = - 8, payee = None\<rparr>]"

text \<open>A service that answers every fetch with the given transactions.\<close>

definition fetchLedger :: "TransactionDetail list \<Rightarrow> ledger" where
  "fetchLedger ts = exLedger (Inr 118500) (Inr []) (Inr []) True
                      \<lparr>getAccountTransactions := (\<lambda>b a since. Inr ts)\<rparr>"

text \<open>
  Bank and ledger transactions with competing candidates: for the bank transaction of 45.00
  the first ledger transaction is within the slack, the second and the third are equal to
  it in amount, date and payee; for the bank transaction of 44.80 all three are within the
  slack; for the one of 8.00 none is.
\<close>

definition exBankTies :: "BankTransaction list" where
  "exBankTies =
     [\<lparr>bank_date = ''2024-03-03'', bank_amount = - 8, payee = None\<rparr>,
      \<lparr>bank_date = ''2024-03-01'', bank_amount = - 224 / 5, payee = Some ''Acme Store''\<rparr>,
      \<lparr>bank_date = ''2024-03-01'', bank_amount = - 45, payee = Some ''Acme Store''\<rparr>]"

definition exLedgerTies :: "TransactionDetail list" where
  "exLedgerTies =
     [exTx ''u1'' ''2024-03-01'' (- 45500) (Some ''Acme Store'') Uncleared,
      exTx ''u2'' ''2024-03-01'' (- 45000) (Some ''Acme Store'') Uncleared,
      exTx ''u3'' ''2024-03-01'' (- 45000) (Some ''Acme Store'') Uncleared]"

section \<open>Notions used in the statements\<close>

text \<open>
  The notions of this section follow the words of the specification, not the matcher: they
  are what the matcher is compared with.

  A ledger transaction is eligible for a bank transaction when it has not been consumed,
  its day count does not exceed the tolerance, and its amount is equal to the bank amount
  in milliunits or within 1000 milliunits of it. A day count that is not a number (a date
  is invalid) exceeds nothing; no such day count occurs in a result of
  \<^verbatim>\<open>matchBankTransactions\<close>, which fails on an invalid date.
\<close>

definition eligible ::
  "runtime \<Rightarrow> rat \<Rightarrow> string set \<Rightarrow> BankTransaction \<Rightarrow> TransactionDetail \<Rightarrow> bool"
where
  "eligible rt tolerance used bankTx y =
     (id_tx y \<notin> used
      \<and> (case dateDifference rt (bank_date bankTx) (date y) of
            None \<Rightarrow> True
          | Some d \<Rightarrow> of_int d \<le> tolerance)
      \<and> \<bar>toMilliunits rt (bank_amount bankTx) - amount y\<bar> \<le> 1000)"

text \<open>
  The tiers in the order of the specification, from low to high: low, medium, high, exact.
\<close>

fun tierRank :: "confidence \<Rightarrow> nat" where
  "tierRank Low = 0"
| "tierRank Medium = 1"
| "tierRank High = 2"
| "tierRank Exact = 3"

text \<open>
  The confidence of a pair by the rules of the specification, the first that applies:
  exact when the amount is equal, the day count is 0 and the payee score is 1; high when
  the amount is equal, the day count is at most 1 and the payee score exceeds 1/2; medium
  when the amount is equal and the day count is at most the tolerance; low otherwise. The
  tier of a pair is the rank of that confidence.
\<close>

definition specConfidence ::
  "runtime \<Rightarrow> rat \<Rightarrow> BankTransaction \<Rightarrow> TransactionDetail \<Rightarrow> confidence"
where
  "specConfidence rt tolerance bankTx y =
     (let exact = (toMilliunits rt (bank_amount bankTx) = amount y);
          days = dateDifference rt (bank_date bankTx) (date y);
          sim = payeeSimilarity (payee bankTx) (payee_name y)
      in if exact \<and> days = Some 0 \<and> sim = 1 then Exact
         else if exact \<and> (case days of None \<Rightarrow> False | Some d \<Rightarrow> d \<le> 1) \<and> sim > 1 / 2
           then High
         else if exact \<and> (case days of None \<Rightarrow> False | Some d \<Rightarrow> of_int d \<le> tolerance)
           then Medium
         else Low)"

definition tier :: "runtime \<Rightarrow> rat \<Rightarrow> BankTransaction \<Rightarrow> TransactionDetail \<Rightarrow> nat" where
  "tier rt tolerance bankTx y = tierRank (specConfidence rt tolerance bankTx y)"

text \<open>
  \<open>firstBest\<close> says that \<open>m\<close> is, in the list \<open>ys\<close>, the first eligible transaction of the
  highest tier: every eligible one before it has a lower tier, and none after it has a
  higher one.
\<close>

definition firstBest ::
  "runtime \<Rightarrow> rat \<Rightarrow> string set \<Rightarrow> BankTransaction \<Rightarrow> TransactionDetail list
     \<Rightarrow> TransactionDetail \<Rightarrow> bool"
where
  "firstBest rt tolerance used bankTx ys m =
     (\<exists>ys1 ys2.
        ys = ys1 @ m # ys2
      \<and> eligible rt tolerance used bankTx m
      \<and> (\<forall>y \<in> set ys1. eligible rt tolerance used bankTx y
             \<longrightarrow> tier rt tolerance bankTx y < tier rt tolerance bankTx m)
      \<and> (\<forall>y \<in> set ys2. eligible rt tolerance used bankTx y
             \<longrightarrow> tier rt tolerance bankTx y \<le> tier rt tolerance bankTx m))"

text \<open>
  \<open>selectedAt\<close>: the match at position \<open>k\<close> of a list of matches pairs its bank
  transaction with the first best ledger transaction among those not consumed by the matches
  before it, and records the confidence and the reasons of that pair.
\<close>

definition selectedAt ::
  "runtime \<Rightarrow> rat \<Rightarrow> TransactionDetail list \<Rightarrow> TransactionMatch list \<Rightarrow> nat \<Rightarrow> bool"
where
  "selectedAt rt tolerance ys ms k =
     (let m = ms ! k;
          used = set (map (\<lambda>m. id_tx (ynabTransaction m)) (take k ms))
      in firstBest rt tolerance used (bankTransaction m) ys (ynabTransaction m)
       \<and> assess rt tolerance (bankTransaction m) (ynabTransaction m)
           = Some (matchConfidence m, matchReasons m))"

text \<open>
  The greedy matching in the words of the specification. \<open>specBestCandidate\<close>: among the
  ledger transactions eligible for a bank transaction, in fetch order, the first of those
  whose tier is the highest tier that occurs; none when none is eligible.
  \<open>specGreedy\<close>: the bank transactions are taken in the given order; one with an eligible
  ledger transaction is paired with its best candidate, which is consumed and so out of
  the pool for all that follow; one with none is left unmatched. The result is the list
  of pairs and the list of unmatched bank transactions, both in the order of processing.
\<close>

definition specBestCandidate ::
  "runtime \<Rightarrow> rat \<Rightarrow> string set \<Rightarrow> BankTransaction \<Rightarrow> TransactionDetail list
     \<Rightarrow> TransactionDetail option"
where
  "specBestCandidate rt tolerance used bankTx ys =
     (let pool = filter (eligible rt tolerance used bankTx) ys;
          top = foldr max (map (tier rt tolerance bankTx) pool) 0
      in find (\<lambda>y. tier rt tolerance bankTx y = top) pool)"

fun specGreedy ::
  "runtime \<Rightarrow> rat \<Rightarrow> TransactionDetail list \<Rightarrow> string set \<Rightarrow> BankTransaction list
     \<Rightarrow> (BankTransaction \<times> TransactionDetail) list \<times> BankTransaction list"
where
  "specGreedy rt tolerance ys used [] = ([], [])"
| "specGreedy rt tolerance ys used (b # bs) =
     (case specBestCandidate rt tolerance used b ys of
        None \<Rightarrow>
          (case specGreedy rt tolerance ys used bs of
             (pairs, unmatched) \<Rightarrow> (pairs, b # unmatched))
      | Some m \<Rightarrow>
          (case specGreedy rt tolerance ys (insert (id_tx m) used) bs of
             (pairs, unmatched) \<Rightarrow> ((b, m) # pairs, unmatched)))"

text \<open>The invariant of the outer loop, after the bank transactions \<open>bs\<close>.\<close>

definition matchingInv ::
  "runtime \<Rightarrow> rat \<Rightarrow> TransactionDetail list \<Rightarrow> BankTransaction list \<Rightarrow> matching \<Rightarrow> bool"
where
  "matchingInv rt tolerance ys bs st =
     (mset (map bankTransaction (st_matched st)) + mset (st_unmatchedBank st) = mset bs
      \<and> st_usedYnabIds st = set (map (\<lambda>m. id_tx (ynabTransaction m)) (st_matched st))
      \<and> distinct (map (\<lambda>m. id_tx (ynabTransaction m)) (st_matched st))
      \<and> subseq (map bankTransaction (st_matched st)) bs
      \<and> subseq (st_unmatchedBank st) bs
      \<and> (\<forall>k < length (st_matched st). selectedAt rt tolerance ys (st_matched st) k)
      \<and> (\<forall>b \<in> set (st_unmatchedBank st). \<forall>y \<in> set ys.
            \<not> eligible rt tolerance (st_usedYnabIds st) b y))"

text \<open>
  The payee score in the words of the specification, for two normalised payees that differ:
  the fraction of the white-space-delimited tokens of the shorter string that appear as a
  substring of, or contain, a token of the other string.
\<close>

definition shorterTokenFraction :: "string \<Rightarrow> string \<Rightarrow> rat" where
  "shorterTokenFraction p1 p2 =
     (let shorter = (if length p1 \<le> length p2 then p1 else p2);
          other = (if length p1 \<le> length p2 then p2 else p1);
          tokens = splitWs shorter
      in of_nat (length (filter (\<lambda>w. list_ex (\<lambda>v. sublist w v \<or> sublist v w)
                                       (splitWs other)) tokens))
           / of_nat (length tokens))"

section \<open>The matcher on an empty list of bank transactions\<close>

text \<open>
  C2. With no bank transaction, \<^verbatim>\<open>Math.min()\<close> is \<^verbatim>\<open>Infinity\<close>, the date built from
  it is invalid, and \<^verbatim>\<open>toISOString\<close> throws before anything is fetched: the call fails
  with a \<^verbatim>\<open>RangeError\<close>, whatever the runtime, the service and the tolerance, where C2
  expects a result with match rate 0 and every ledger transaction unmatched.
\<close>

theorem matchBankTransactions_empty_throws:
  "matchBankTransactions rt api budgetId accountId [] tolerance
     = Inl (RangeError ''Invalid time value'')"
  by (simp add: matchBankTransactions_def mathMin_def)

section \<open>The reconciler: failures and warnings\<close>


lemma markReconciled_cases:
  "markReconciled api budgetId ts = (n, ws, cs) \<Longrightarrow>
     (ts = [] \<and> n = 0 \<and> ws = [] \<and> cs = []) \<or>
     (ts \<noteq> [] \<and> cs = [BulkUpdateTransactions budgetId (reconcileUpdates ts)] \<and>
        ((\<exists>updated. bulkUpdateTransactions api budgetId (reconcileUpdates ts) = Inr updated
            \<and> n = length updated \<and> ws = []) \<or>
         (\<exists>e. bulkUpdateTransactions api budgetId (reconcileUpdates ts) = Inl e
            \<and> n = 0 \<and> ws = [''Failed to update some transactions: '' @ message e])))"
  by (auto simp: markReconciled_def Let_def split: if_splits sum.splits)

lemma createAdjustmentStep_cases:
  "createAdjustmentStep rt api budgetId accountId targetBalance reconciliationDate
       createAdjustment adjustmentMemo adj = (created, tx, ws, cs) \<Longrightarrow>
     ((adj = 0 \<or> \<not> createAdjustment) \<and> \<not> created \<and> tx = None \<and> ws = [] \<and> cs = []) \<or>
     (adj \<noteq> 0 \<and> createAdjustment \<and>
        ((\<exists>e. getPayees api budgetId = Inl e \<and> \<not> created \<and> tx = None \<and> ws \<noteq> []
              \<and> cs = [GetPayees budgetId]) \<or>
         (\<exists>payees draft.
              getPayees api budgetId = Inr payees
            \<and> draft = adjustmentData rt accountId targetBalance reconciliationDate
                        adjustmentMemo adj
                        (find (\<lambda>p. payee_ident p = RECONCILIATION_PAYEE_ID) payees)
            \<and> save_amount draft = adj
            \<and> cs = [GetPayees budgetId, CreateTransaction budgetId draft]
            \<and> (find (\<lambda>p. payee_ident p = RECONCILIATION_PAYEE_ID) payees = None \<longrightarrow> ws \<noteq> [])
            \<and> ((\<exists>t. createTransaction api budgetId draft = Inr t \<and> created \<and> tx = Some t) \<or>
                (\<exists>e. createTransaction api budgetId draft = Inl e \<and> \<not> created \<and> tx = None
                      \<and> ws \<noteq> [])))))"
  by (auto simp: createAdjustmentStep_def adjustmentData_def Let_def split: if_splits sum.splits)

text \<open>The three fatal failures, and the outcome of every other run.\<close>

lemma reconcile_fatal_first:
  "getAccount api 0 budgetId accountId = Inl e \<Longrightarrow>
   reconcileAccountWithAdjustment rt api budgetId accountId targetBalance reconciliationDate
       createAdjustment adjustmentMemo
     = (Inl (reconciliationFailed e), [GetAccount budgetId accountId])"
  by (simp add: reconcileAccountWithAdjustment_def)

lemma reconcile_fatal_fetch:
  "getAccount api 0 budgetId accountId = Inr account \<Longrightarrow>
   getAccountTransactions api budgetId accountId None = Inl e \<Longrightarrow>
   reconcileAccountWithAdjustment rt api budgetId accountId targetBalance reconciliationDate
       createAdjustment adjustmentMemo
     = (Inl (reconciliationFailed e),
        [GetAccount budgetId accountId, GetAccountTransactions budgetId accountId])"
  by (simp add: reconcileAccountWithAdjustment_def)

lemma reconcile_fatal_refetch:
  "getAccount api 0 budgetId accountId = Inr account \<Longrightarrow>
   getAccountTransactions api budgetId accountId None = Inr transactions \<Longrightarrow>
   getAccount api 1 budgetId accountId = Inl e \<Longrightarrow>
   fst (reconcileAccountWithAdjustment rt api budgetId accountId targetBalance reconciliationDate
       createAdjustment adjustmentMemo) = Inl (reconciliationFailed e)"
  by (simp add: reconcileAccountWithAdjustment_def Let_def split: prod.splits)

lemma reconcile_outcome:
  assumes "getAccount api 0 budgetId accountId = Inr account"
    and "getAccountTransactions api budgetId accountId None = Inr transactions"
    and "getAccount api 1 budgetId accountId = Inr updatedAccount"
    and "markReconciled api budgetId
           (transactionsToReconcile rt reconciliationDate transactions) = (n, ws1, cs1)"
    and "createAdjustmentStep rt api budgetId accountId targetBalance reconciliationDate
           createAdjustment adjustmentMemo
           (toMilliunits rt targetBalance - balance updatedAccount) = (created, tx, ws2, cs2)"
  shows "reconcileAccountWithAdjustment rt api budgetId accountId targetBalance
           reconciliationDate createAdjustment adjustmentMemo
         = (Inr \<lparr>res_account_id = accountId,
                 account_name = name account,
                 reconciliation_date = reconciliationDate,
                 transactions_reconciled = n,
                 starting_balance = balance account,
                 target_balance = toMilliunits rt targetBalance,
                 actual_balance =
                   (if created then toMilliunits rt targetBalance else balance updatedAccount),
                 adjustment_needed = toMilliunits rt targetBalance - balance updatedAccount,
                 adjustment_created = created,
                 adjustment_transaction = tx,
                 errors = (if ws1 @ ws2 = [] then None else Some (ws1 @ ws2))\<rparr>,
            [GetAccount budgetId accountId, GetAccountTransactions budgetId accountId]
              @ cs1 @ [GetAccount budgetId accountId] @ cs2)"
  using assms by (simp add: reconcileAccountWithAdjustment_def Let_def)

text \<open>
  C3 (as amended). The reconciler throws exactly when the first account lookup, the fetch of
  the transactions or the second account lookup (the one that reads the balance after the
  marking) fails. In every other run it returns an outcome, and every failed call of that run
  to the batched update, to the payee list or to the creation of the adjustment, and a payee
  list without the system payee, has left a non-empty list of warnings.
\<close>

theorem reconcile_fatal_iff:
  "(let r = reconcileAccountWithAdjustment rt api budgetId accountId targetBalance
              reconciliationDate createAdjustment adjustmentMemo
    in (isl (fst r) \<longleftrightarrow>
          isl (getAccount api 0 budgetId accountId)
        \<or> isl (getAccountTransactions api budgetId accountId None)
        \<or> isl (getAccount api 1 budgetId accountId))
     \<and> (\<forall>out. fst r = Inr out \<longrightarrow>
          (\<forall>us. BulkUpdateTransactions budgetId us \<in> set (snd r)
                 \<and> isl (bulkUpdateTransactions api budgetId us)
               \<longrightarrow> (\<exists>ws. errors out = Some ws \<and> ws \<noteq> []))
        \<and> (GetPayees budgetId \<in> set (snd r) \<and> isl (getPayees api budgetId)
               \<longrightarrow> (\<exists>ws. errors out = Some ws \<and> ws \<noteq> []))
        \<and> (\<forall>payees. GetPayees budgetId \<in> set (snd r) \<and> getPayees api budgetId = Inr payees
                 \<and> find (\<lambda>p. payee_ident p = RECONCILIATION_PAYEE_ID) payees = None
               \<longrightarrow> (\<exists>ws. errors out = Some ws \<and> ws \<noteq> []))
        \<and> (\<forall>d. CreateTransaction budgetId d \<in> set (snd r)
                 \<and> isl (createTransaction api budgetId d)
               \<longrightarrow> (\<exists>ws. errors out = Some ws \<and> ws \<noteq> []))))"
proof (cases "getAccount api 0 budgetId accountId")
  case (Inl e)
  then show ?thesis by (simp add: reconcile_fatal_first Let_def)
next
  case acct: (Inr account)
  show ?thesis
  proof (cases "getAccountTransactions api budgetId accountId None")
    case (Inl e)
    with acct show ?thesis by (simp add: reconcile_fatal_fetch Let_def)
  next
    case txs: (Inr transactions)
    show ?thesis
    proof (cases "getAccount api 1 budgetId accountId")
      case (Inl e)
      with acct txs show ?thesis by (simp add: reconcile_fatal_refetch Let_def)
    next
      case acct2: (Inr updatedAccount)
      obtain n ws1 cs1 where m: "markReconciled api budgetId
           (transactionsToReconcile rt reconciliationDate transactions) = (n, ws1, cs1)"
        by (metis prod_cases3)
      obtain created tx ws2 cs2 where c:
        "createAdjustmentStep rt api budgetId accountId targetBalance reconciliationDate
           createAdjustment adjustmentMemo
           (toMilliunits rt targetBalance - balance updatedAccount) = (created, tx, ws2, cs2)"
        by (metis prod_cases4)
      note r = reconcile_outcome [OF acct txs acct2 m c]
      show ?thesis
        using markReconciled_cases [OF m] createAdjustmentStep_cases [OF c] acct txs acct2
        unfolding Let_def r
        by (auto simp: isl_def)
    qed
  qed
qed

text \<open>
  C10. In a run with \<^verbatim>\<open>createAdjustment\<close> true whose account lookups and transaction fetch
  succeed and whose adjustment is not zero, if the creation step fails (the payee list cannot
  be fetched, or \<^verbatim>\<open>createTransaction\<close> throws), the outcome has \<open>adjustment_created\<close>
  false, no adjustment transaction, \<open>actual_balance\<close> equal to the balance read after the
  marking (which differs from the target), \<open>adjustment_needed\<close> equal to the discrepancy,
  and a non-empty list of warnings.
\<close>

theorem reconcile_adjustment_failure:
  assumes acct: "getAccount api 0 budgetId accountId = Inr account"
    and txs: "getAccountTransactions api budgetId accountId None = Inr transactions"
    and acct2: "getAccount api 1 budgetId accountId = Inr updatedAccount"
    and nz: "toMilliunits rt targetBalance - balance updatedAccount \<noteq> 0"
    and fails:
      "case getPayees api budgetId of
         Inl e \<Rightarrow> True
       | Inr payees \<Rightarrow>
           isl (createTransaction api budgetId
                  (adjustmentData rt accountId targetBalance reconciliationDate adjustmentMemo
                     (toMilliunits rt targetBalance - balance updatedAccount)
                     (find (\<lambda>p. payee_ident p = RECONCILIATION_PAYEE_ID) payees)))"
  shows "\<exists>out ws.
           fst (reconcileAccountWithAdjustment rt api budgetId accountId targetBalance
                  reconciliationDate True adjustmentMemo) = Inr out
         \<and> \<not> adjustment_created out
         \<and> adjustment_transaction out = None
         \<and> actual_balance out = balance updatedAccount
         \<and> target_balance out = toMilliunits rt targetBalance
         \<and> actual_balance out \<noteq> target_balance out
         \<and> adjustment_needed out = toMilliunits rt targetBalance - balance updatedAccount
         \<and> errors out = Some ws \<and> ws \<noteq> []"
proof -
  obtain n ws1 cs1 where m: "markReconciled api budgetId
       (transactionsToReconcile rt reconciliationDate transactions) = (n, ws1, cs1)"
    by (cases "markReconciled api budgetId
       (transactionsToReconcile rt reconciliationDate transactions)") auto
  show ?thesis
    using acct txs acct2 nz fails m
    by (auto simp: reconcileAccountWithAdjustment_def createAdjustmentStep_def Let_def isl_def
             split: sum.splits)
qed

lemma toMilliunits_utc_120: "toMilliunits utcRuntime 120 = 120000"
  by code_simp

theorem reconcile_adjustment_failure_witness:
  "toMilliunits utcRuntime 120 - 118500 \<noteq> 0
   \<and> isl (createTransaction (exLedger (Inr 118500) (Inr exMarked) (Inr exPayees) False) ''budget-1''
          (adjustmentData utcRuntime ''acct-1'' 120 ''2024-03-05'' None 1500
             (find (\<lambda>p. payee_ident p = RECONCILIATION_PAYEE_ID) exPayees)))
   \<and> (\<exists>out ws.
         fst (reconcileAccountWithAdjustment utcRuntime
                (exLedger (Inr 118500) (Inr exMarked) (Inr exPayees) False)
                ''budget-1'' ''acct-1'' 120 ''2024-03-05'' True None) = Inr out
       \<and> \<not> adjustment_created out
       \<and> actual_balance out = 118500
       \<and> target_balance out = 120000
       \<and> adjustment_needed out = 1500
       \<and> errors out = Some ws \<and> ws \<noteq> [])"
proof -
  let ?api = "exLedger (Inr 118500) (Inr exMarked) (Inr exPayees) False"
  let ?acc = "\<lparr>name = ''Checking'', balance = 118500\<rparr>"
  have h1: "getAccount ?api 0 ''budget-1'' ''acct-1'' = Inr ?acc"
    by (simp add: exLedger_def)
  have h2: "getAccountTransactions ?api ''budget-1'' ''acct-1'' None = Inr exTransactions"
    by (simp add: exLedger_def)
  have h3: "getAccount ?api 1 ''budget-1'' ''acct-1'' = Inr ?acc"
    by (simp add: exLedger_def)
  have h4: "toMilliunits utcRuntime 120 - balance ?acc \<noteq> 0"
    by (simp add: toMilliunits_utc_120)
  have h5: "case getPayees ?api ''budget-1'' of
         Inl e \<Rightarrow> True
       | Inr payees \<Rightarrow>
           isl (createTransaction ?api ''budget-1''
                  (adjustmentData utcRuntime ''acct-1'' 120 ''2024-03-05'' None
                     (toMilliunits utcRuntime 120 - balance ?acc)
                     (find (\<lambda>p. payee_ident p = RECONCILIATION_PAYEE_ID) payees)))"
    by (simp add: exLedger_def)
  have h6: "isl (createTransaction ?api ''budget-1''
          (adjustmentData utcRuntime ''acct-1'' 120 ''2024-03-05'' None 1500
             (find (\<lambda>p. payee_ident p = RECONCILIATION_PAYEE_ID) exPayees)))"
    by (simp add: exLedger_def)
  from reconcile_adjustment_failure [OF h1 h2 h3 h4 h5] h6
  show ?thesis
    by (auto simp: toMilliunits_utc_120)
qed

subsection \<open>Concrete runs\<close>

lemma exTransactionsToReconcile:
  "transactionsToReconcile utcRuntime ''2024-03-05'' exTransactions
     = [exTx ''t1'' ''2024-03-01'' (- 45000) (Some ''Acme Store'') Uncleared,
        exTx ''t2'' ''2024-03-02'' (- 12500) (Some ''Coffee Bar'') Cleared]"
  by code_simp

lemma exRun_update_and_create_fail:
  "reconcileAccountWithAdjustment utcRuntime
     (exLedger (Inr 118500) (Inl (Error ''YNAB API Error: timeout'')) (Inr exPayees) False)
     ''budget-1'' ''acct-1'' 120 ''2024-03-05'' True None
   = (Inr \<lparr>res_account_id = ''acct-1'', account_name = ''Checking'',
         reconciliation_date = ''2024-03-05'', transactions_reconciled = 0,
         starting_balance = 118500, target_balance = 120000,
         actual_balance = 118500, adjustment_needed = 1500,
         adjustment_created = False, adjustment_transaction = None,
         errors = Some [''Failed to update some transactions: YNAB API Error: timeout'',
                        ''Failed to create adjustment transaction: YNAB API Error: rate limited'']\<rparr>,
      [GetAccount ''budget-1'' ''acct-1'',
       GetAccountTransactions ''budget-1'' ''acct-1'',
       BulkUpdateTransactions ''budget-1''
         [\<lparr>upd_id = ''t1'', upd_cleared = Reconciled\<rparr>,
          \<lparr>upd_id = ''t2'', upd_cleared = Reconciled\<rparr>],
       GetAccount ''budget-1'' ''acct-1'', GetPayees ''budget-1'',
       CreateTransaction ''budget-1''
        \<lparr>save_account_id = ''acct-1'', save_date = ''2024-03-05'',
           save_amount = 1500,
           save_payee_id = Some ''f942249d-8be6-4c16-8cb8-3007897cdfc8'',
           save_payee_name = None,
           save_category_id = Some ''27e74120-8c36-43df-bac2-2ac4b033879e'',
           save_memo = ''Reconciliation adjustment to match balance of $120.00'',
           save_cleared = Reconciled, save_approved = True\<rparr>])"
  by code_simp

lemma exRun_scenario:
  "reconcileAccountWithAdjustment utcRuntime
     (exLedger (Inr 118500) (Inr exMarked) (Inr exPayees) True)
     ''budget-1'' ''acct-1'' 120 ''2024-03-05'' True None
   = (Inr \<lparr>res_account_id = ''acct-1'', account_name = ''Checking'',
         reconciliation_date = ''2024-03-05'', transactions_reconciled = 2,
         starting_balance = 118500, target_balance = 120000,
         actual_balance = 120000, adjustment_needed = 1500,
         adjustment_created = True,
         adjustment_transaction =
           Some \<lparr>id_tx = ''t-new'', date = ''2024-03-05'', amount = 1500,
               memo = Some ''Reconciliation adjustment to match balance of $120.00'',
               cleared = Reconciled, approved = True, account_id = ''acct-1'',
               payee_id = Some ''f942249d-8be6-4c16-8cb8-3007897cdfc8'',
               payee_name = None,
               category_id = Some ''27e74120-8c36-43df-bac2-2ac4b033879e'',
               deleted = False\<rparr>,
         errors = None\<rparr>,
      [GetAccount ''budget-1'' ''acct-1'',
       GetAccountTransactions ''budget-1'' ''acct-1'',
       BulkUpdateTransactions ''budget-1''
         [\<lparr>upd_id = ''t1'', upd_cleared = Reconciled\<rparr>,
          \<lparr>upd_id = ''t2'', upd_cleared = Reconciled\<rparr>],
       GetAccount ''budget-1'' ''acct-1'', GetPayees ''budget-1'',
       CreateTransaction ''budget-1''
        \<lparr>save_account_id = ''acct-1'', save_date = ''2024-03-05'',
           save_amount = 1500,
           save_payee_id = Some ''f942249d-8be6-4c16-8cb8-3007897cdfc8'',
           save_payee_name = None,
           save_category_id = Some ''27e74120-8c36-43df-bac2-2ac4b033879e'',
           save_memo = ''Reconciliation adjustment to match balance of $120.00'',
           save_cleared = Reconciled, save_approved = True\<rparr>])"
  by code_simp

lemma exRun_balanced:
  "reconcileAccountWithAdjustment utcRuntime
     (exLedger (Inr 120000) (Inr exMarked) (Inr exPayees) True)
     ''budget-1'' ''acct-1'' 120 ''2024-03-05'' True None
   = (Inr \<lparr>res_account_id = ''acct-1'', account_name = ''Checking'',
         reconciliation_date = ''2024-03-05'', transactions_reconciled = 2,
         starting_balance = 118500, target_balance = 120000,
         actual_balance = 120000, adjustment_needed = 0,
         adjustment_created = False, adjustment_transaction = None,
         errors = None\<rparr>,
      [GetAccount ''budget-1'' ''acct-1'',
       GetAccountTransactions ''budget-1'' ''acct-1'',
       BulkUpdateTransactions ''budget-1''
         [\<lparr>upd_id = ''t1'', upd_cleared = Reconciled\<rparr>,
          \<lparr>upd_id = ''t2'', upd_cleared = Reconciled\<rparr>],
       GetAccount ''budget-1'' ''acct-1''])"
  by code_simp

subsection \<open>Fatal failures\<close>

text \<open>
  Against C3: a run in which the first account lookup and the fetch of the transactions
  succeed and the second account lookup fails. The reconciler throws, and no outcome is
  returned, although the marking has been requested.
\<close>

theorem reconcile_refetch_fatal_counterexample:
  "reconcileAccountWithAdjustment utcRuntime
     (exLedger (Inl (Error ''YNAB API Error: timeout'')) (Inr exMarked) (Inr exPayees) True)
     ''budget-1'' ''acct-1'' 120 ''2024-03-05'' True None
   = (Inl (Error ''Reconciliation failed: YNAB API Error: timeout''),
      [GetAccount ''budget-1'' ''acct-1'',
       GetAccountTransactions ''budget-1'' ''acct-1'',
       BulkUpdateTransactions ''budget-1''
         [\<lparr>upd_id = ''t1'', upd_cleared = Reconciled\<rparr>,
          \<lparr>upd_id = ''t2'', upd_cleared = Reconciled\<rparr>],
       GetAccount ''budget-1'' ''acct-1''])
   \<and> getAccount
       (exLedger (Inl (Error ''YNAB API Error: timeout'')) (Inr exMarked) (Inr exPayees) True)
       0 ''budget-1'' ''acct-1'' = Inr \<lparr>name = ''Checking'', balance = 118500\<rparr>
   \<and> getAccountTransactions
       (exLedger (Inl (Error ''YNAB API Error: timeout'')) (Inr exMarked) (Inr exPayees) True)
       ''budget-1'' ''acct-1'' None = Inr exTransactions"
  by code_simp

text \<open>A run in which the batched update and the creation of the adjustment both fail: an
  outcome is returned, with warnings.\<close>

theorem reconcile_fatal_iff_witness:
  "isl (bulkUpdateTransactions
          (exLedger (Inr 118500) (Inl (Error ''YNAB API Error: timeout'')) (Inr exPayees) False)
          ''budget-1''
          [\<lparr>upd_id = ''t1'', upd_cleared = Reconciled\<rparr>,
           \<lparr>upd_id = ''t2'', upd_cleared = Reconciled\<rparr>])
   \<and> (\<forall>draft. isl (createTransaction
          (exLedger (Inr 118500) (Inl (Error ''YNAB API Error: timeout'')) (Inr exPayees) False)
          ''budget-1'' draft))
   \<and> \<not> isl (fst (reconcileAccountWithAdjustment utcRuntime
                (exLedger (Inr 118500) (Inl (Error ''YNAB API Error: timeout'')) (Inr exPayees) False)
                ''budget-1'' ''acct-1'' 120 ''2024-03-05'' True None))
   \<and> (\<exists>ws. errors (projr (fst (reconcileAccountWithAdjustment utcRuntime
                (exLedger (Inr 118500) (Inl (Error ''YNAB API Error: timeout'')) (Inr exPayees) False)
                ''budget-1'' ''acct-1'' 120 ''2024-03-05'' True None))) = Some ws \<and> ws \<noteq> [])"
proof -
  let ?api = "exLedger (Inr 118500) (Inl (Error ''YNAB API Error: timeout'')) (Inr exPayees) False"
  let ?us = "[\<lparr>upd_id = ''t1'', upd_cleared = Reconciled\<rparr>,
              \<lparr>upd_id = ''t2'', upd_cleared = Reconciled\<rparr>]"
  let ?r = "reconcileAccountWithAdjustment utcRuntime ?api
              ''budget-1'' ''acct-1'' 120 ''2024-03-05'' True None"
  have failed: "isl (bulkUpdateTransactions ?api ''budget-1'' ?us)"
    by (simp add: exLedger_def)
  have refused: "\<forall>draft. isl (createTransaction ?api ''budget-1'' draft)"
    by (simp add: exLedger_def)
  have called: "BulkUpdateTransactions ''budget-1'' ?us \<in> set (snd ?r)"
    unfolding exRun_update_and_create_fail by simp
  have lookups: "\<not> isl (getAccount ?api 0 ''budget-1'' ''acct-1'')
        \<and> \<not> isl (getAccountTransactions ?api ''budget-1'' ''acct-1'' None)
        \<and> \<not> isl (getAccount ?api 1 ''budget-1'' ''acct-1'')"
    by (simp add: exLedger_def)
  note t = reconcile_fatal_iff [of utcRuntime ?api "''budget-1''" "''acct-1''" 120
        "''2024-03-05''" True None, unfolded Let_def]
  from t lookups have ok: "\<not> isl (fst ?r)"
    by blast
  then obtain out where out: "fst ?r = Inr out"
    by (cases "fst ?r") auto
  with t called failed have "\<exists>ws. errors out = Some ws \<and> ws \<noteq> []"
    by blast
  with out ok failed refused show ?thesis
    by simp
qed

subsection \<open>A batched update that returns fewer results than requested\<close>

text \<open>
  Against C4: two updates are requested and the service returns one result. The outcome
  counts one transaction, and its list of warnings is absent: the shortfall is not reported.
\<close>

theorem reconcile_partial_update_counterexample:
  "reconcileAccountWithAdjustment utcRuntime
     (exLedger (Inr 118500)
        (Inr [exTx ''t1'' ''2024-03-01'' (- 45000) (Some ''Acme Store'') Reconciled])
        (Inr exPayees) True)
     ''budget-1'' ''acct-1'' 120 ''2024-03-05'' False None
   = (Inr \<lparr>res_account_id = ''acct-1'', account_name = ''Checking'',
         reconciliation_date = ''2024-03-05'', transactions_reconciled = 1,
         starting_balance = 118500, target_balance = 120000,
         actual_balance = 118500, adjustment_needed = 1500,
         adjustment_created = False, adjustment_transaction = None,
         errors = None\<rparr>,
      [GetAccount ''budget-1'' ''acct-1'',
       GetAccountTransactions ''budget-1'' ''acct-1'',
       BulkUpdateTransactions ''budget-1''
         [\<lparr>upd_id = ''t1'', upd_cleared = Reconciled\<rparr>,
          \<lparr>upd_id = ''t2'', upd_cleared = Reconciled\<rparr>],
       GetAccount ''budget-1'' ''acct-1''])
   \<and> bulkUpdateTransactions
       (exLedger (Inr 118500)
          (Inr [exTx ''t1'' ''2024-03-01'' (- 45000) (Some ''Acme Store'') Reconciled])
          (Inr exPayees) True)
       ''budget-1''
       [\<lparr>upd_id = ''t1'', upd_cleared = Reconciled\<rparr>,
        \<lparr>upd_id = ''t2'', upd_cleared = Reconciled\<rparr>]
     = Inr [exTx ''t1'' ''2024-03-01'' (- 45000) (Some ''Acme Store'') Reconciled]"
  by code_simp

text \<open>
  C4 (as amended). When the batched update returns, without throwing, fewer results than the
  number of updates requested, \<open>transactions_reconciled\<close> is the number of results returned,
  not the number requested. The shortfall adds no warning: the warnings of the outcome are
  those of the adjustment step alone, and there is none when no adjustment is attempted.
\<close>

theorem reconcile_partial_update:
  assumes acct: "getAccount api 0 budgetId accountId = Inr account"
    and txs: "getAccountTransactions api budgetId accountId None = Inr transactions"
    and acct2: "getAccount api 1 budgetId accountId = Inr updatedAccount"
    and upd: "bulkUpdateTransactions api budgetId
                (reconcileUpdates (transactionsToReconcile rt reconciliationDate transactions))
              = Inr updated"
    and fewer: "length updated
                  < length (reconcileUpdates
                              (transactionsToReconcile rt reconciliationDate transactions))"
  shows "\<exists>out.
           fst (reconcileAccountWithAdjustment rt api budgetId accountId targetBalance
                  reconciliationDate createAdjustment adjustmentMemo) = Inr out
         \<and> transactions_reconciled out = length updated
         \<and> transactions_reconciled out
              < length (reconcileUpdates
                          (transactionsToReconcile rt reconciliationDate transactions))
         \<and> errors out =
              (let ws = fst (snd (snd
                         (createAdjustmentStep rt api budgetId accountId targetBalance
                            reconciliationDate createAdjustment adjustmentMemo
                            (toMilliunits rt targetBalance - balance updatedAccount))))
               in if ws = [] then None else Some ws)
         \<and> (\<not> createAdjustment \<or> toMilliunits rt targetBalance = balance updatedAccount
              \<longrightarrow> errors out = None)"
proof -
  let ?ts = "transactionsToReconcile rt reconciliationDate transactions"
  from fewer have ne: "?ts \<noteq> []"
    by (auto simp: reconcileUpdates_def)
  with upd have m: "markReconciled api budgetId ?ts
      = (length updated, [], [BulkUpdateTransactions budgetId (reconcileUpdates ?ts)])"
    by (simp add: markReconciled_def)
  obtain created tx ws2 cs2 where c:
    "createAdjustmentStep rt api budgetId accountId targetBalance reconciliationDate
       createAdjustment adjustmentMemo
       (toMilliunits rt targetBalance - balance updatedAccount) = (created, tx, ws2, cs2)"
    by (metis prod_cases4)
  have none: "\<not> createAdjustment \<or> toMilliunits rt targetBalance = balance updatedAccount
                \<Longrightarrow> ws2 = []"
    using createAdjustmentStep_cases [OF c] by auto
  show ?thesis
    using fewer none
    by (simp add: reconcile_outcome [OF acct txs acct2 m c] c)
qed

theorem reconcile_partial_update_witness:
  "length [exTx ''t1'' ''2024-03-01'' (- 45000) (Some ''Acme Store'') Reconciled]
     < length (reconcileUpdates (transactionsToReconcile utcRuntime ''2024-03-05'' exTransactions))
   \<and> (\<exists>out.
         fst (reconcileAccountWithAdjustment utcRuntime
                (exLedger (Inr 118500)
                   (Inr [exTx ''t1'' ''2024-03-01'' (- 45000) (Some ''Acme Store'') Reconciled])
                   (Inr exPayees) True)
                ''budget-1'' ''acct-1'' 120 ''2024-03-05'' False None) = Inr out
       \<and> transactions_reconciled out = 1
       \<and> errors out = None)"
proof -
  let ?one = "[exTx ''t1'' ''2024-03-01'' (- 45000) (Some ''Acme Store'') Reconciled]"
  let ?api = "exLedger (Inr 118500) (Inr ?one) (Inr exPayees) True"
  let ?acc = "\<lparr>name = ''Checking'', balance = 118500\<rparr>"
  have h1: "getAccount ?api 0 ''budget-1'' ''acct-1'' = Inr ?acc"
    by (simp add: exLedger_def)
  have h2: "getAccountTransactions ?api ''budget-1'' ''acct-1'' None = Inr exTransactions"
    by (simp add: exLedger_def)
  have h3: "getAccount ?api 1 ''budget-1'' ''acct-1'' = Inr ?acc"
    by (simp add: exLedger_def)
  have h4: "bulkUpdateTransactions ?api ''budget-1''
              (reconcileUpdates (transactionsToReconcile utcRuntime ''2024-03-05'' exTransactions))
            = Inr ?one"
    by (simp add: exLedger_def)
  have h5: "length ?one
      < length (reconcileUpdates (transactionsToReconcile utcRuntime ''2024-03-05'' exTransactions))"
    by (simp add: exTransactionsToReconcile reconcileUpdates_def)
  from reconcile_partial_update [OF h1 h2 h3 h4 h5, of 120 False None] h5
  show ?thesis
    by auto
qed

subsection \<open>The adjustment\<close>

lemma markReconciled_calls:
  "markReconciled api budgetId ts = (n, ws, cs) \<Longrightarrow>
     \<forall>c \<in> set cs. \<exists>us. c = BulkUpdateTransactions budgetId us"
  by (auto dest: markReconciled_cases)

lemma reconcile_Inr_cases:
  assumes "reconcileAccountWithAdjustment rt api budgetId accountId targetBalance
             reconciliationDate createAdjustment adjustmentMemo = (Inr out, calls)"
  obtains account transactions updatedAccount n ws1 cs1 created tx ws2 cs2 where
    "getAccount api 0 budgetId accountId = Inr account"
    "getAccountTransactions api budgetId accountId None = Inr transactions"
    "getAccount api 1 budgetId accountId = Inr updatedAccount"
    "markReconciled api budgetId
       (transactionsToReconcile rt reconciliationDate transactions) = (n, ws1, cs1)"
    "createAdjustmentStep rt api budgetId accountId targetBalance reconciliationDate
       createAdjustment adjustmentMemo
       (toMilliunits rt targetBalance - balance updatedAccount) = (created, tx, ws2, cs2)"
proof -
  from assms obtain account where a: "getAccount api 0 budgetId accountId = Inr account"
    by (cases "getAccount api 0 budgetId accountId") (auto simp: reconcile_fatal_first)
  from assms a obtain transactions where
    t: "getAccountTransactions api budgetId accountId None = Inr transactions"
    by (cases "getAccountTransactions api budgetId accountId None")
       (auto simp: reconcile_fatal_fetch)
  from assms a t obtain updatedAccount where
    u: "getAccount api 1 budgetId accountId = Inr updatedAccount"
    by (cases "getAccount api 1 budgetId accountId")
       (auto dest: reconcile_fatal_refetch [where rt = rt and targetBalance = targetBalance
           and reconciliationDate = reconciliationDate
           and createAdjustment = createAdjustment and adjustmentMemo = adjustmentMemo])
  obtain n ws1 cs1 where m: "markReconciled api budgetId
       (transactionsToReconcile rt reconciliationDate transactions) = (n, ws1, cs1)"
    by (metis prod_cases3)
  obtain created tx ws2 cs2 where c:
    "createAdjustmentStep rt api budgetId accountId targetBalance reconciliationDate
       createAdjustment adjustmentMemo
       (toMilliunits rt targetBalance - balance updatedAccount) = (created, tx, ws2, cs2)"
    by (metis prod_cases4)
  from a t u m c show thesis by (rule that)
qed

text \<open>
  Against C6: a run with \<^verbatim>\<open>createAdjustment\<close> true and an adjustment of 1500 in which
  the payee list cannot be fetched. No adjustment transaction is created, and none is even
  requested, although the amount is not zero.
\<close>

theorem reconcile_adjustment_counterexample:
  "reconcileAccountWithAdjustment utcRuntime
     (exLedger (Inr 118500) (Inr exMarked) (Inl (Error ''YNAB API Error: timeout'')) True)
     ''budget-1'' ''acct-1'' 120 ''2024-03-05'' True None
   = (Inr \<lparr>res_account_id = ''acct-1'', account_name = ''Checking'',
         reconciliation_date = ''2024-03-05'', transactions_reconciled = 2,
         starting_balance = 118500, target_balance = 120000,
         actual_balance = 118500, adjustment_needed = 1500,
         adjustment_created = False, adjustment_transaction = None,
         errors = Some [''Failed to create adjustment transaction: YNAB API Error: timeout'']\<rparr>,
      [GetAccount ''budget-1'' ''acct-1'',
       GetAccountTransactions ''budget-1'' ''acct-1'',
       BulkUpdateTransactions ''budget-1''
         [\<lparr>upd_id = ''t1'', upd_cleared = Reconciled\<rparr>,
          \<lparr>upd_id = ''t2'', upd_cleared = Reconciled\<rparr>],
       GetAccount ''budget-1'' ''acct-1'', GetPayees ''budget-1''])"
  by code_simp

text \<open>
  C6 (as amended). In every run with \<^verbatim>\<open>createAdjustment\<close> true that returns an outcome:
  the adjustment is the target in milliunits minus the balance read after the marking; a
  creation request, if any, carries exactly that amount, and there is at most one; a creation
  is requested exactly when the adjustment is not zero and the payee list was fetched; the
  adjustment is created exactly when that request succeeds; when it is created,
  \<open>adjustment_created\<close> is true and \<open>actual_balance\<close> is the target; otherwise
  \<open>actual_balance\<close> is the balance read after the marking; and when the adjustment is
  zero nothing is requested and \<open>adjustment_created\<close> is false.
\<close>

theorem reconcile_adjustment:
  assumes run: "reconcileAccountWithAdjustment rt api budgetId accountId targetBalance
                  reconciliationDate True adjustmentMemo = (Inr out, calls)"
  shows "\<exists>updatedAccount.
           getAccount api 1 budgetId accountId = Inr updatedAccount
         \<and> target_balance out = toMilliunits rt targetBalance
         \<and> adjustment_needed out = toMilliunits rt targetBalance - balance updatedAccount
         \<and> (\<forall>draft. CreateTransaction budgetId draft \<in> set calls
                \<longrightarrow> save_amount draft = adjustment_needed out)
         \<and> (\<forall>draft. count_list calls (CreateTransaction budgetId draft) \<le> 1)
         \<and> ((\<exists>draft. CreateTransaction budgetId draft \<in> set calls)
                \<longleftrightarrow> adjustment_needed out \<noteq> 0 \<and> \<not> isl (getPayees api budgetId))
         \<and> (adjustment_created out
                \<longleftrightarrow> (\<exists>draft t. CreateTransaction budgetId draft \<in> set calls
                             \<and> createTransaction api budgetId draft = Inr t))
         \<and> (adjustment_created out \<longrightarrow> actual_balance out = toMilliunits rt targetBalance)
         \<and> (\<not> adjustment_created out \<longrightarrow> actual_balance out = balance updatedAccount)
         \<and> (adjustment_needed out = 0
                \<longrightarrow> \<not> adjustment_created out
                  \<and> (\<forall>draft. CreateTransaction budgetId draft \<notin> set calls))"
proof -
  from run obtain account transactions updatedAccount n ws1 cs1 created tx ws2 cs2 where
    a: "getAccount api 0 budgetId accountId = Inr account" and
    t: "getAccountTransactions api budgetId accountId None = Inr transactions" and
    u: "getAccount api 1 budgetId accountId = Inr updatedAccount" and
    m: "markReconciled api budgetId
       (transactionsToReconcile rt reconciliationDate transactions) = (n, ws1, cs1)" and
    c: "createAdjustmentStep rt api budgetId accountId targetBalance reconciliationDate
       True adjustmentMemo
       (toMilliunits rt targetBalance - balance updatedAccount) = (created, tx, ws2, cs2)"
    by (rule reconcile_Inr_cases)
  note r = run [unfolded reconcile_outcome [OF a t u m c]]
  from r have out: "target_balance out = toMilliunits rt targetBalance"
    "adjustment_needed out = toMilliunits rt targetBalance - balance updatedAccount"
    "adjustment_created out = created"
    "actual_balance out = (if created then toMilliunits rt targetBalance else balance updatedAccount)"
    and calls: "calls = [GetAccount budgetId accountId, GetAccountTransactions budgetId accountId]
              @ cs1 @ [GetAccount budgetId accountId] @ cs2"
    by auto
  have cs1: "\<And>d. CreateTransaction budgetId d \<notin> set cs1"
    using markReconciled_calls [OF m] by auto
  then have cnt1: "\<And>d. count_list cs1 (CreateTransaction budgetId d) = 0"
    by (simp add: count_list_0_iff)
  show ?thesis
    using createAdjustmentStep_cases [OF c] u cs1 cnt1
    unfolding out calls
    by (intro exI [of _ updatedAccount]) (auto simp: isl_def)
qed

text \<open>The two scenarios: target 120.00 against a balance of 118500 after the marking,
  and a target equal to the balance.\<close>

theorem reconcile_adjustment_witness:
  "(adjustment_needed (projr (fst (reconcileAccountWithAdjustment utcRuntime
        (exLedger (Inr 118500) (Inr exMarked) (Inr exPayees) True)
        ''budget-1'' ''acct-1'' 120 ''2024-03-05'' True None))) = 1500
    \<and> adjustment_created (projr (fst (reconcileAccountWithAdjustment utcRuntime
        (exLedger (Inr 118500) (Inr exMarked) (Inr exPayees) True)
        ''budget-1'' ''acct-1'' 120 ''2024-03-05'' True None)))
    \<and> actual_balance (projr (fst (reconcileAccountWithAdjustment utcRuntime
        (exLedger (Inr 118500) (Inr exMarked) (Inr exPayees) True)
        ''budget-1'' ''acct-1'' 120 ''2024-03-05'' True None))) = 120000
    \<and> (\<exists>draft.
          CreateTransaction ''budget-1'' draft
            \<in> set (snd (reconcileAccountWithAdjustment utcRuntime
                (exLedger (Inr 118500) (Inr exMarked) (Inr exPayees) True)
                ''budget-1'' ''acct-1'' 120 ''2024-03-05'' True None))
        \<and> save_amount draft = 1500))
   \<and> (adjustment_needed (projr (fst (reconcileAccountWithAdjustment utcRuntime
        (exLedger (Inr 120000) (Inr exMarked) (Inr exPayees) True)
        ''budget-1'' ''acct-1'' 120 ''2024-03-05'' True None))) = 0
    \<and> \<not> adjustment_created (projr (fst (reconcileAccountWithAdjustment utcRuntime
        (exLedger (Inr 120000) (Inr exMarked) (Inr exPayees) True)
        ''budget-1'' ''acct-1'' 120 ''2024-03-05'' True None)))
    \<and> (\<forall>draft.
          CreateTransaction ''budget-1'' draft
            \<notin> set (snd (reconcileAccountWithAdjustment utcRuntime
                (exLedger (Inr 120000) (Inr exMarked) (Inr exPayees) True)
                ''budget-1'' ''acct-1'' 120 ''2024-03-05'' True None))))"
proof -
  let ?api1 = "exLedger (Inr 118500) (Inr exMarked) (Inr exPayees) True"
  let ?api2 = "exLedger (Inr 120000) (Inr exMarked) (Inr exPayees) True"
  have t120: "toMilliunits utcRuntime 120 = 120000"
    by (rule toMilliunits_utc_120)
  have facts1: "\<not> isl (getPayees ?api1 ''budget-1'')"
    "getAccount ?api1 1 ''budget-1'' ''acct-1'' = Inr \<lparr>name = ''Checking'', balance = 118500\<rparr>"
    "\<And>d. createTransaction ?api1 ''budget-1'' d = Inr (exCreated d)"
    by (simp_all add: exLedger_def)
  have facts2:
    "getAccount ?api2 1 ''budget-1'' ''acct-1'' = Inr \<lparr>name = ''Checking'', balance = 120000\<rparr>"
    by (simp add: exLedger_def)
  from reconcile_adjustment [OF exRun_scenario] facts1 t120
  have first: "adjustment_needed (projr (fst (reconcileAccountWithAdjustment utcRuntime ?api1
        ''budget-1'' ''acct-1'' 120 ''2024-03-05'' True None))) = 1500
     \<and> adjustment_created (projr (fst (reconcileAccountWithAdjustment utcRuntime ?api1
        ''budget-1'' ''acct-1'' 120 ''2024-03-05'' True None)))
     \<and> actual_balance (projr (fst (reconcileAccountWithAdjustment utcRuntime ?api1
        ''budget-1'' ''acct-1'' 120 ''2024-03-05'' True None))) = 120000
     \<and> (\<exists>draft. CreateTransaction ''budget-1'' draft
            \<in> set (snd (reconcileAccountWithAdjustment utcRuntime ?api1
        ''budget-1'' ''acct-1'' 120 ''2024-03-05'' True None))
          \<and> save_amount draft = 1500)"
    unfolding exRun_scenario by auto
  from reconcile_adjustment [OF exRun_balanced] facts2 t120
  have second: "adjustment_needed (projr (fst (reconcileAccountWithAdjustment utcRuntime ?api2
        ''budget-1'' ''acct-1'' 120 ''2024-03-05'' True None))) = 0
     \<and> \<not> adjustment_created (projr (fst (reconcileAccountWithAdjustment utcRuntime ?api2
        ''budget-1'' ''acct-1'' 120 ''2024-03-05'' True None)))
     \<and> (\<forall>draft. CreateTransaction ''budget-1'' draft
            \<notin> set (snd (reconcileAccountWithAdjustment utcRuntime ?api2
        ''budget-1'' ''acct-1'' 120 ''2024-03-05'' True None)))"
    unfolding exRun_balanced by auto
  from first second show ?thesis by blast
qed

section \<open>The payee score\<close>

text \<open>
  Against C5: two payees that differ after lowering and trimming score 1
  (\<open>acme\<close> is contained in \<open>acme2\<close>, one token each); the score of \<open>acme store\<close>
  against \<open>acme\<close> is 1/2, where the fraction of the tokens of the shorter string is 1; and
  two empty payees, which are equal, score 0.
\<close>

theorem payeeSimilarity_counterexample:
  "payeeSimilarity (Some ''acme'') (Some ''acme2'') = 1
   \<and> trim (toLowerCase ''acme'') \<noteq> trim (toLowerCase ''acme2'')
   \<and> payeeSimilarity (Some ''acme store'') (Some ''acme'') = 1 / 2
   \<and> shorterTokenFraction (trim (toLowerCase ''acme store'')) (trim (toLowerCase ''acme'')) = 1
   \<and> payeeSimilarity (Some []) (Some []) = 0"
  by code_simp

lemma splitWs_not_Nil [simp]: "splitWs s \<noteq> []"
  by (induction s) (auto split: list.splits)

lemma wordMatches_iff:
  "wordMatches words2 w \<longleftrightarrow> (\<exists>v \<in> set words2. sublist w v \<or> sublist v w)"
  by (auto simp: wordMatches_def includesStr_def list_ex_iff)

lemma payeeSimilarity_falsy:
  "falsy payee1 \<or> falsy payee2 \<Longrightarrow> payeeSimilarity payee1 payee2 = 0"
  by (auto simp: payeeSimilarity_def)

lemma ratio_bounds:
  fixes m n k :: nat
  assumes "m \<le> n" "0 < n"
  shows "0 \<le> (of_nat m :: rat) / of_nat (max n k)" "(of_nat m :: rat) / of_nat (max n k) \<le> 1"
  using assms by (simp_all add: divide_le_eq_1 le_max_iff_disj less_max_iff_disj)

lemma payeeSimilarity_bounds:
  "0 \<le> payeeSimilarity payee1 payee2 \<and> payeeSimilarity payee1 payee2 \<le> 1"
proof -
  have len: "0 < length (splitWs s)" for s
    by simp
  show ?thesis
    unfolding payeeSimilarity_def Let_def
    using ratio_bounds [OF length_filter_le len]
    by auto
qed

lemma ratio_eq_1_iff:
  fixes m n k :: nat
  assumes "m \<le> n" "0 < n"
  shows "(of_nat m :: rat) / of_nat (max n k) = 1 \<longleftrightarrow> m = n \<and> k \<le> n"
proof -
  have "(of_nat m :: rat) / of_nat (max n k) = 1 \<longleftrightarrow> (of_nat m :: rat) = of_nat (max n k)"
    using assms by (auto simp: less_max_iff_disj)
  also have "\<dots> \<longleftrightarrow> m = max n k"
    by (simp only: of_nat_eq_iff)
  also have "\<dots> \<longleftrightarrow> m = n \<and> k \<le> n"
    using assms by auto
  finally show ?thesis .
qed

lemma payeeSimilarity_same:
  assumes "s1 \<noteq> []" "s2 \<noteq> []" "trim (toLowerCase s1) = trim (toLowerCase s2)"
  shows "payeeSimilarity (Some s1) (Some s2) = 1"
  using assms by (simp add: payeeSimilarity_def)

lemma payeeSimilarity_differ:
  assumes "s1 \<noteq> []" "s2 \<noteq> []" "trim (toLowerCase s1) \<noteq> trim (toLowerCase s2)"
  shows "payeeSimilarity (Some s1) (Some s2)
           = of_nat (length (filter
                (\<lambda>w. \<exists>v \<in> set (splitWs (trim (toLowerCase s2))). sublist w v \<or> sublist v w)
                (splitWs (trim (toLowerCase s1)))))
             / of_nat (max (length (splitWs (trim (toLowerCase s1))))
                           (length (splitWs (trim (toLowerCase s2)))))"
  using assms by (simp add: payeeSimilarity_def Let_def wordMatches_iff [abs_def])

lemma length_filter_all:
  "length (filter P xs) = length xs \<longleftrightarrow> (\<forall>x \<in> set xs. P x)"
  by (metis filter_id_conv length_filter_less less_irrefl)

lemma payeeSimilarity_eq_1:
  assumes "s1 \<noteq> []" "s2 \<noteq> []"
  shows "payeeSimilarity (Some s1) (Some s2) = 1 \<longleftrightarrow>
           trim (toLowerCase s1) = trim (toLowerCase s2)
         \<or> ((\<forall>w \<in> set (splitWs (trim (toLowerCase s1))).
                \<exists>v \<in> set (splitWs (trim (toLowerCase s2))). sublist w v \<or> sublist v w)
            \<and> length (splitWs (trim (toLowerCase s2)))
                 \<le> length (splitWs (trim (toLowerCase s1))))"
proof (cases "trim (toLowerCase s1) = trim (toLowerCase s2)")
  case True
  with assms show ?thesis by (simp add: payeeSimilarity_same)
next
  case False
  have len: "0 < length (splitWs s)" for s
    by simp
  show ?thesis
    unfolding payeeSimilarity_differ [OF assms False]
      ratio_eq_1_iff [OF length_filter_le len] length_filter_all
    using False by simp
qed

text \<open>
  C5 (as amended). The payee score lies between 0 and 1. It is 0 when a payee is missing or
  empty. For two non-empty payees it is 1 when they are equal after lowering and trimming;
  otherwise it is the number of white-space-delimited tokens of the first (bank) payee that
  are a substring of, or contain, a token of the second (ledger) payee, divided by the larger
  of the two token counts. So the score is 1 exactly when the payees are equal after
  normalisation, or every token of the first matches and the second has no more tokens than
  the first.
\<close>

theorem payeeSimilarity_value:
  "0 \<le> payeeSimilarity payee1 payee2 \<and> payeeSimilarity payee1 payee2 \<le> 1
   \<and> (falsy payee1 \<or> falsy payee2 \<longrightarrow> payeeSimilarity payee1 payee2 = 0)
   \<and> (\<forall>s1 s2. payee1 = Some s1 \<and> payee2 = Some s2 \<and> s1 \<noteq> [] \<and> s2 \<noteq> [] \<longrightarrow>
        (let p1 = trim (toLowerCase s1); p2 = trim (toLowerCase s2)
         in (p1 = p2 \<longrightarrow> payeeSimilarity payee1 payee2 = 1)
          \<and> (p1 \<noteq> p2 \<longrightarrow>
                payeeSimilarity payee1 payee2
                  = of_nat (length (filter (\<lambda>w. \<exists>v \<in> set (splitWs p2). sublist w v \<or> sublist v w)
                                      (splitWs p1)))
                    / of_nat (max (length (splitWs p1)) (length (splitWs p2))))
          \<and> (payeeSimilarity payee1 payee2 = 1 \<longleftrightarrow>
                p1 = p2
              \<or> ((\<forall>w \<in> set (splitWs p1). \<exists>v \<in> set (splitWs p2). sublist w v \<or> sublist v w)
                  \<and> length (splitWs p2) \<le> length (splitWs p1)))))"
proof (intro conjI allI impI)
  show "0 \<le> payeeSimilarity payee1 payee2" "payeeSimilarity payee1 payee2 \<le> 1"
    using payeeSimilarity_bounds [of payee1 payee2] by simp_all
  show "payeeSimilarity payee1 payee2 = 0" if "falsy payee1 \<or> falsy payee2"
    using that by (rule payeeSimilarity_falsy)
  fix s1 s2
  assume "payee1 = Some s1 \<and> payee2 = Some s2 \<and> s1 \<noteq> [] \<and> s2 \<noteq> []"
  then have p: "payee1 = Some s1" "payee2 = Some s2" and ne: "s1 \<noteq> []" "s2 \<noteq> []"
    by simp_all
  show "let p1 = trim (toLowerCase s1); p2 = trim (toLowerCase s2)
         in (p1 = p2 \<longrightarrow> payeeSimilarity payee1 payee2 = 1)
          \<and> (p1 \<noteq> p2 \<longrightarrow>
                payeeSimilarity payee1 payee2
                  = of_nat (length (filter (\<lambda>w. \<exists>v \<in> set (splitWs p2). sublist w v \<or> sublist v w)
                                      (splitWs p1)))
                    / of_nat (max (length (splitWs p1)) (length (splitWs p2))))
          \<and> (payeeSimilarity payee1 payee2 = 1 \<longleftrightarrow>
                p1 = p2
              \<or> ((\<forall>w \<in> set (splitWs p1). \<exists>v \<in> set (splitWs p2). sublist w v \<or> sublist v w)
                  \<and> length (splitWs p2) \<le> length (splitWs p1)))"
    unfolding Let_def p
    using payeeSimilarity_same [OF ne] payeeSimilarity_differ [OF ne] payeeSimilarity_eq_1 [OF ne]
    by blast
qed

theorem payeeSimilarity_value_witness:
  "payeeSimilarity (Some ''Acme Store'') (Some '' ACME store '') = 1
   \<and> payeeSimilarity (Some ''COFFEE BAR 0042'') (Some ''Coffee Bar'') = 2 / 3
   \<and> payeeSimilarity (Some ''acme'') None = 0"
proof -
  have n1: "trim (toLowerCase ''Acme Store'') = trim (toLowerCase '' ACME store '')"
    by code_simp
  have n2: "trim (toLowerCase ''COFFEE BAR 0042'') \<noteq> trim (toLowerCase ''Coffee Bar'')"
    by code_simp
  have frac: "(of_nat (length (filter
                  (\<lambda>w. \<exists>v \<in> set (splitWs (trim (toLowerCase ''Coffee Bar''))). sublist w v \<or> sublist v w)
                  (splitWs (trim (toLowerCase ''COFFEE BAR 0042'')))))
               / of_nat (max (length (splitWs (trim (toLowerCase ''COFFEE BAR 0042''))))
                             (length (splitWs (trim (toLowerCase ''Coffee Bar''))))) :: rat) = 2 / 3"
    by code_simp
  from payeeSimilarity_value [of "Some ''Acme Store''" "Some '' ACME store ''"] n1
  have a: "payeeSimilarity (Some ''Acme Store'') (Some '' ACME store '') = 1"
    by (simp add: Let_def)
  from payeeSimilarity_value [of "Some ''COFFEE BAR 0042''" "Some ''Coffee Bar''"] n2 frac
  have b: "payeeSimilarity (Some ''COFFEE BAR 0042'') (Some ''Coffee Bar'') = 2 / 3"
    by (simp add: Let_def)
  from payeeSimilarity_value [of "Some ''acme''" None]
  have c: "payeeSimilarity (Some ''acme'') None = 0"
    by simp
  from a b c show ?thesis by simp
qed

section \<open>The matching loops\<close>

subsection \<open>The inner loop\<close>

lemma payeeSimilarity_or_undefined:
  "payeeSimilarity p (if falsy q then None else q) = payeeSimilarity p q"
  by (simp add: payeeSimilarity_def)

lemma assess_Some:
  assumes "assess rt tol b y = Some (c, r)"
  shows "\<not> days_gt (dateDifference rt (bank_date b) (date y)) tol"
    and "\<bar>toMilliunits rt (bank_amount b) - amount y\<bar> \<le> 1000"
    and "c = confidenceLevel (toMilliunits rt (bank_amount b) = amount y)
               (dateDifference rt (bank_date b) (date y)) tol
               (payeeSimilarity (payee b) (payee_name y))"
  using assms
  by (auto simp: assess_def Let_def amountMatches_def payeeSimilarity_or_undefined
           split: if_splits)

text \<open>The scoring of the matcher against the notions of the specification: a pair is
  scored exactly when it is eligible, its confidence is the one of the rules, and the
  numbers that the matcher compares rank the tiers from low to exact.\<close>

lemma eligible_assess:
  "eligible rt tol U b y \<longleftrightarrow> id_tx y \<notin> U \<and> assess rt tol b y \<noteq> None"
  by (cases "dateDifference rt (bank_date b) (date y)")
     (auto simp: eligible_def assess_def Let_def amountMatches_def)

lemma assess_specConfidence:
  assumes "assess rt tol b y = Some (c, r)"
  shows "c = specConfidence rt tol b y"
  using assess_Some(3) [OF assms]
  by (cases "dateDifference rt (bank_date b) (date y)")
     (simp_all add: specConfidence_def confidenceLevel_def Let_def)

lemma confidenceOrder_tierRank: "confidenceOrder c = Suc (tierRank c)"
  by (cases c) simp_all

lemma tier_assess: "assess rt tol b y = Some (c, r) \<Longrightarrow> tier rt tol b y = tierRank c"
  using assess_specConfidence [of rt tol b y c r] by (simp add: tier_def)

lemma candidateStep_not_eligible:
  "\<not> eligible rt tol U b y \<Longrightarrow> candidateStep rt tol U b B y = B"
  by (auto simp: candidateStep_def eligible_assess split: option.splits)

lemma candidateStep_eligible:
  "eligible rt tol U b y \<Longrightarrow> assess rt tol b y = Some (c, r) \<Longrightarrow>
   candidateStep rt tol U b B y =
     (if bestMatch B = None \<or> confidenceOrder c > confidenceOrder (bestConfidence B)
      then \<lparr>bestMatch = Some y, bestConfidence = c, bestReasons = r\<rparr> else B)"
  by (simp add: candidateStep_def eligible_assess)

lemma firstBest_eligible: "firstBest rt tol U b ys m \<Longrightarrow> eligible rt tol U b m"
  by (auto simp: firstBest_def)

lemma firstBest_mem: "firstBest rt tol U b ys m \<Longrightarrow> m \<in> set ys"
  by (auto simp: firstBest_def)

lemma firstBest_tier_max:
  "firstBest rt tol U b ys m \<Longrightarrow> y \<in> set ys \<Longrightarrow> eligible rt tol U b y \<Longrightarrow>
     tier rt tol b y \<le> tier rt tol b m"
  unfolding firstBest_def by (fastforce simp: less_imp_le)

lemma firstBest_snoc_keep:
  assumes "firstBest rt tol U b ys m"
    and "eligible rt tol U b y \<Longrightarrow> tier rt tol b y \<le> tier rt tol b m"
  shows "firstBest rt tol U b (ys @ [y]) m"
proof -
  from assms(1) obtain ys1 ys2 where
    ys: "ys = ys1 @ m # ys2" and el: "eligible rt tol U b m"
    and before: "\<forall>y \<in> set ys1. eligible rt tol U b y \<longrightarrow> tier rt tol b y < tier rt tol b m"
    and after: "\<forall>y \<in> set ys2. eligible rt tol U b y \<longrightarrow> tier rt tol b y \<le> tier rt tol b m"
    unfolding firstBest_def by blast
  have "ys @ [y] = ys1 @ m # (ys2 @ [y])"
    by (simp add: ys)
  moreover have "\<forall>z \<in> set (ys2 @ [y]). eligible rt tol U b z \<longrightarrow> tier rt tol b z \<le> tier rt tol b m"
    using after assms(2) by auto
  ultimately show ?thesis
    unfolding firstBest_def using el before by blast
qed

lemma firstBest_snoc_new:
  assumes "eligible rt tol U b y"
    and "\<forall>z \<in> set ys. eligible rt tol U b z \<longrightarrow> tier rt tol b z < tier rt tol b y"
  shows "firstBest rt tol U b (ys @ [y]) y"
  unfolding firstBest_def
  using assms by (intro exI [of _ ys] exI [of _ "[]"]) simp

lemma foldl_candidateStep_inv:
  "(bestMatch (foldl (candidateStep rt tol U b) initBest ys) = None
      \<longrightarrow> (\<forall>y \<in> set ys. \<not> eligible rt tol U b y))
   \<and> (\<forall>m. bestMatch (foldl (candidateStep rt tol U b) initBest ys) = Some m
      \<longrightarrow> firstBest rt tol U b ys m
        \<and> assess rt tol b m
            = Some (bestConfidence (foldl (candidateStep rt tol U b) initBest ys),
                    bestReasons (foldl (candidateStep rt tol U b) initBest ys)))"
proof (induction ys rule: rev_induct)
  case Nil
  show ?case by (simp add: initBest_def)
next
  case (snoc y ys)
  let ?B = "foldl (candidateStep rt tol U b) initBest ys"
  show ?case
  proof (cases "eligible rt tol U b y")
    case False
    then have step: "candidateStep rt tol U b ?B y = ?B"
      by (rule candidateStep_not_eligible)
    show ?thesis
      using snoc False by (auto simp: step intro: firstBest_snoc_keep)
  next
    case True
    then obtain c r where a: "assess rt tol b y = Some (c, r)"
      by (auto simp: eligible_assess)
    note step = candidateStep_eligible [OF True a, of ?B]
    show ?thesis
    proof (cases "bestMatch ?B")
      case None
      with snoc have "\<forall>z \<in> set ys. \<not> eligible rt tol U b z"
        by simp
      then have "firstBest rt tol U b (ys @ [y]) y"
        using True by (intro firstBest_snoc_new) auto
      with None a show ?thesis
        by (simp add: step)
    next
      case (Some m0)
      with snoc have fb: "firstBest rt tol U b ys m0"
        and a0: "assess rt tol b m0 = Some (bestConfidence ?B, bestReasons ?B)"
        by simp_all
      have t0: "tier rt tol b m0 = tierRank (bestConfidence ?B)"
        using a0 by (rule tier_assess)
      have ty: "tier rt tol b y = tierRank c"
        using a by (rule tier_assess)
      show ?thesis
      proof (cases "confidenceOrder c > confidenceOrder (bestConfidence ?B)")
        case True
        have "\<forall>z \<in> set ys. eligible rt tol U b z \<longrightarrow> tier rt tol b z < tier rt tol b y"
          using firstBest_tier_max [OF fb] True t0 ty
          by (fastforce simp: confidenceOrder_tierRank)
        with \<open>eligible rt tol U b y\<close> have "firstBest rt tol U b (ys @ [y]) y"
          by (rule firstBest_snoc_new)
        with True a show ?thesis
          by (simp add: step)
      next
        case False
        then have "tier rt tol b y \<le> tier rt tol b m0"
          using t0 ty by (simp add: confidenceOrder_tierRank)
        with fb have "firstBest rt tol U b (ys @ [y]) m0"
          by (intro firstBest_snoc_keep)
        with False Some a0 show ?thesis
          by (simp add: step)
      qed
    qed
  qed
qed

lemma findBest_None:
  "bestMatch (findBest rt tol U ys b) = None \<longleftrightarrow> (\<forall>y \<in> set ys. \<not> eligible rt tol U b y)"
proof
  assume "bestMatch (findBest rt tol U ys b) = None"
  then show "\<forall>y \<in> set ys. \<not> eligible rt tol U b y"
    using foldl_candidateStep_inv [of rt tol U b ys] by (simp add: findBest_def)
next
  assume none: "\<forall>y \<in> set ys. \<not> eligible rt tol U b y"
  show "bestMatch (findBest rt tol U ys b) = None"
  proof (cases "bestMatch (findBest rt tol U ys b)")
    case (Some m)
    then have "firstBest rt tol U b ys m"
      using foldl_candidateStep_inv [of rt tol U b ys] by (simp add: findBest_def)
    with none show ?thesis
      using firstBest_eligible firstBest_mem by blast
  qed simp
qed

lemma findBest_Some:
  assumes "bestMatch (findBest rt tol U ys b) = Some m"
  shows "firstBest rt tol U b ys m"
    and "assess rt tol b m
           = Some (bestConfidence (findBest rt tol U ys b), bestReasons (findBest rt tol U ys b))"
  using assms foldl_candidateStep_inv [of rt tol U b ys] by (simp_all add: findBest_def)

text \<open>The inner loop finds the best candidate of the specification.\<close>

lemma foldr_max_le:
  "\<forall>x \<in> set xs. f x \<le> n \<Longrightarrow> foldr max (map f xs) 0 \<le> (n::nat)"
  by (induction xs) simp_all

lemma foldr_max_ge:
  "x \<in> set xs \<Longrightarrow> f x \<le> foldr max (map f xs) (0::nat)"
  by (induction xs) (auto simp: le_max_iff_disj)

lemma find_first:
  "\<forall>x \<in> set xs. \<not> P x \<Longrightarrow> P m \<Longrightarrow> find P (xs @ m # zs) = Some m"
  by (induction xs) simp_all

lemma specBestCandidate_firstBest:
  assumes "firstBest rt tol U b ys m"
  shows "specBestCandidate rt tol U b ys = Some m"
proof -
  from assms obtain ys1 ys2 where
    ys: "ys = ys1 @ m # ys2" and el: "eligible rt tol U b m"
    and before: "\<forall>y \<in> set ys1. eligible rt tol U b y \<longrightarrow> tier rt tol b y < tier rt tol b m"
    and after: "\<forall>y \<in> set ys2. eligible rt tol U b y \<longrightarrow> tier rt tol b y \<le> tier rt tol b m"
    unfolding firstBest_def by blast
  let ?pool = "filter (eligible rt tol U b) ys"
  let ?p1 = "filter (eligible rt tol U b) ys1"
  let ?p2 = "filter (eligible rt tol U b) ys2"
  have pool: "?pool = ?p1 @ m # ?p2"
    using el by (simp add: ys)
  have "\<forall>y \<in> set ?pool. tier rt tol b y \<le> tier rt tol b m"
    unfolding pool using before after by (auto simp: less_imp_le)
  then have le: "foldr max (map (tier rt tol b) ?pool) 0 \<le> tier rt tol b m"
    by (rule foldr_max_le)
  have "m \<in> set ?pool"
    by (simp add: pool)
  then have ge: "tier rt tol b m \<le> foldr max (map (tier rt tol b) ?pool) 0"
    by (rule foldr_max_ge)
  from le ge have top: "foldr max (map (tier rt tol b) ?pool) 0 = tier rt tol b m"
    by simp
  have "\<forall>y \<in> set ?p1. \<not> tier rt tol b y = tier rt tol b m"
    using before by auto
  then have "find (\<lambda>y. tier rt tol b y = tier rt tol b m) (?p1 @ m # ?p2) = Some m"
    by (rule find_first) simp
  then show ?thesis
    unfolding specBestCandidate_def Let_def top by (simp only: pool)
qed

lemma specBestCandidate_none:
  assumes "\<forall>y \<in> set ys. \<not> eligible rt tol U b y"
  shows "specBestCandidate rt tol U b ys = None"
proof -
  from assms have "filter (eligible rt tol U b) ys = []"
    by (simp add: filter_empty_conv)
  then show ?thesis
    by (simp add: specBestCandidate_def)
qed

lemma findBest_spec:
  "bestMatch (findBest rt tol U ys b) = specBestCandidate rt tol U b ys"
proof (cases "bestMatch (findBest rt tol U ys b)")
  case None
  then have "\<forall>y \<in> set ys. \<not> eligible rt tol U b y"
    by (simp add: findBest_None)
  then have "specBestCandidate rt tol U b ys = None"
    by (rule specBestCandidate_none)
  with None show ?thesis by simp
next
  case (Some m)
  then have "firstBest rt tol U b ys m"
    by (rule findBest_Some(1))
  then have "specBestCandidate rt tol U b ys = Some m"
    by (rule specBestCandidate_firstBest)
  with Some show ?thesis by simp
qed

lemma specBestCandidate_None_iff:
  "specBestCandidate rt tol U b ys = None \<longleftrightarrow> (\<forall>y \<in> set ys. \<not> eligible rt tol U b y)"
  using findBest_None [of rt tol U ys b] by (simp add: findBest_spec)


subsection \<open>The outer loop\<close>

lemma eligible_mono:
  "eligible rt tol (insert i U) b y \<Longrightarrow> eligible rt tol U b y"
  by (simp add: eligible_def)

lemma matchingInv_init: "matchingInv rt tol ys [] initMatching"
  by (simp add: matchingInv_def initMatching_def)

lemma selectedAt_snoc_old:
  "k < length ms \<Longrightarrow> selectedAt rt tol ys (ms @ [m]) k = selectedAt rt tol ys ms k"
  by (simp add: selectedAt_def nth_append)

lemma selectedAt_snoc_new:
  "selectedAt rt tol ys (ms @ [m]) (length ms) \<longleftrightarrow>
     firstBest rt tol (set (map (\<lambda>m. id_tx (ynabTransaction m)) ms))
       (bankTransaction m) ys (ynabTransaction m)
   \<and> assess rt tol (bankTransaction m) (ynabTransaction m)
       = Some (matchConfidence m, matchReasons m)"
  by (simp add: selectedAt_def)

lemma matchingInvD:
  assumes "matchingInv rt tol ys bs st"
  shows "mset (map bankTransaction (st_matched st)) + mset (st_unmatchedBank st) = mset bs"
    and "st_usedYnabIds st = set (map (\<lambda>m. id_tx (ynabTransaction m)) (st_matched st))"
    and "distinct (map (\<lambda>m. id_tx (ynabTransaction m)) (st_matched st))"
    and "subseq (map bankTransaction (st_matched st)) bs"
    and "subseq (st_unmatchedBank st) bs"
    and "\<And>k. k < length (st_matched st) \<Longrightarrow> selectedAt rt tol ys (st_matched st) k"
    and "\<And>b y. b \<in> set (st_unmatchedBank st) \<Longrightarrow> y \<in> set ys
           \<Longrightarrow> \<not> eligible rt tol (st_usedYnabIds st) b y"
  using assms unfolding matchingInv_def by blast+

lemma matchingInvI:
  assumes "mset (map bankTransaction (st_matched st)) + mset (st_unmatchedBank st) = mset bs"
    and "st_usedYnabIds st = set (map (\<lambda>m. id_tx (ynabTransaction m)) (st_matched st))"
    and "distinct (map (\<lambda>m. id_tx (ynabTransaction m)) (st_matched st))"
    and "subseq (map bankTransaction (st_matched st)) bs"
    and "subseq (st_unmatchedBank st) bs"
    and "\<And>k. k < length (st_matched st) \<Longrightarrow> selectedAt rt tol ys (st_matched st) k"
    and "\<And>b y. b \<in> set (st_unmatchedBank st) \<Longrightarrow> y \<in> set ys
           \<Longrightarrow> \<not> eligible rt tol (st_usedYnabIds st) b y"
  shows "matchingInv rt tol ys bs st"
  using assms unfolding matchingInv_def by blast

lemma matchingInv_step:
  assumes inv: "matchingInv rt tol ys bs st"
  shows "matchingInv rt tol ys (bs @ [b]) (bankStep rt tol ys st b)"
proof (cases "bestMatch (findBest rt tol (st_usedYnabIds st) ys b)")
  case None
  note d = matchingInvD [OF inv]
  from None have st': "bankStep rt tol ys st b = st\<lparr>st_unmatchedBank := st_unmatchedBank st @ [b]\<rparr>"
    by (simp add: bankStep_def Let_def)
  from None have none: "\<And>y. y \<in> set ys \<Longrightarrow> \<not> eligible rt tol (st_usedYnabIds st) b y"
    by (simp add: findBest_None)
  show ?thesis
    unfolding st'
  proof (rule matchingInvI, goal_cases)
    case 1
    show ?case using d(1) by simp
  next
    case 2
    show ?case using d(2) by simp
  next
    case 3
    show ?case using d(3) by simp
  next
    case 4
    show ?case using subseq_rev_drop_many [OF d(4)] by simp
  next
    case 5
    show ?case using d(5) by simp
  next
    case (6 k)
    then show ?case using d(6) by simp
  next
    case (7 b' y)
    then show ?case using none d(7) by auto
  qed
next
  case (Some m)
  note d = matchingInvD [OF inv]
  let ?B = "findBest rt tol (st_usedYnabIds st) ys b"
  let ?new = "\<lparr>bankTransaction = b, ynabTransaction = m,
                matchConfidence = bestConfidence ?B, matchReasons = bestReasons ?B\<rparr>"
  from Some have st': "bankStep rt tol ys st b
      = st\<lparr>st_matched := st_matched st @ [?new],
           st_usedYnabIds := insert (id_tx m) (st_usedYnabIds st)\<rparr>"
    by (simp add: bankStep_def Let_def)
  note fb = findBest_Some [OF Some]
  from fb(1) have fresh: "id_tx m \<notin> st_usedYnabIds st"
    by (auto dest: firstBest_eligible simp: eligible_def)
  have used: "(\<lambda>m. id_tx (ynabTransaction m)) ` set (st_matched st) = st_usedYnabIds st"
    using d(2) by simp
  have sel_new: "selectedAt rt tol ys (st_matched st @ [?new]) (length (st_matched st))"
    using fb by (simp add: selectedAt_snoc_new used)
  show ?thesis
    unfolding st'
  proof (rule matchingInvI, goal_cases)
    case 1
    show ?case using d(1) by simp
  next
    case 2
    show ?case using d(2) by simp
  next
    case 3
    show ?case using d(3) fresh d(2) by simp
  next
    case 4
    show ?case using d(4) by simp
  next
    case 5
    show ?case using subseq_rev_drop_many [OF d(5)] by simp
  next
    case (6 k)
    then consider "k < length (st_matched st)" | "k = length (st_matched st)"
      by fastforce
    then show ?case
    proof cases
      case 1
      with d(6) show ?thesis
        by (simp add: selectedAt_snoc_old)
    next
      case 2
      with sel_new show ?thesis by simp
    qed
  next
    case (7 b' y)
    then show ?case using d(7) eligible_mono by fastforce
  qed
qed

lemma matchingInv_foldl:
  "matchingInv rt tol ys bs (foldl (bankStep rt tol ys) initMatching bs)"
  by (induction bs rule: rev_induct) (simp_all add: matchingInv_init matchingInv_step)

lemma subseq_set_subset: "subseq xs ys \<Longrightarrow> set xs \<subseteq> set ys"
proof
  fix x assume "subseq xs ys" "x \<in> set xs"
  then obtain y where "y \<in> set ys" "x = y"
    by (rule list_emb_set)
  then show "x \<in> set ys" by simp
qed

lemma sorted_wrt_subseq:
  "subseq xs ys \<Longrightarrow> sorted_wrt R ys \<Longrightarrow> sorted_wrt R xs"
proof (induction rule: list_emb.induct)
  case (list_emb_Nil ys)
  show ?case by simp
next
  case (list_emb_Cons xs ys y)
  then show ?case by simp
next
  case (list_emb_Cons2 x y xs ys)
  from \<open>subseq xs ys\<close> have "set xs \<subseteq> set ys"
    by (rule subseq_set_subset)
  with list_emb_Cons2 show ?case by auto
qed

lemma sortedBankTransactions_sorted:
  "sorted_wrt (\<lambda>a b. \<bar>bank_amount a\<bar> \<ge> \<bar>bank_amount b\<bar>) (sortedBankTransactions bs)"
proof -
  have "sorted (map (\<lambda>t. - \<bar>bank_amount t\<bar>) (sortedBankTransactions bs))"
    unfolding sortedBankTransactions_def by (rule sorted_sort_key)
  then show ?thesis
    by (simp add: sorted_wrt_map)
qed

text \<open>The result of the matching, read off the invariant.\<close>

lemma matchTransactions_inv:
  "\<exists>st. matchingInv rt tol ys (sortedBankTransactions bs) st
      \<and> matched (matchTransactions rt tol bs ys) = st_matched st
      \<and> unmatchedBank (matchTransactions rt tol bs ys) = st_unmatchedBank st
      \<and> unmatchedYNAB (matchTransactions rt tol bs ys)
          = filter (\<lambda>t. id_tx t \<notin> st_usedYnabIds st) ys"
  using matchingInv_foldl [of rt tol ys "sortedBankTransactions bs"]
  by (auto simp: matchTransactions_def Let_def)

text \<open>The outer loop computes the greedy matching of the specification.\<close>

lemma bankStep_unmatched:
  assumes "specBestCandidate rt tol (st_usedYnabIds st) b ys = None"
  shows "st_matched (bankStep rt tol ys st b) = st_matched st"
    and "st_usedYnabIds (bankStep rt tol ys st b) = st_usedYnabIds st"
    and "st_unmatchedBank (bankStep rt tol ys st b) = st_unmatchedBank st @ [b]"
  using assms by (simp_all add: bankStep_def Let_def findBest_spec)

lemma bankStep_matched:
  assumes "specBestCandidate rt tol (st_usedYnabIds st) b ys = Some m"
  shows "map (\<lambda>m. (bankTransaction m, ynabTransaction m)) (st_matched (bankStep rt tol ys st b))
           = map (\<lambda>m. (bankTransaction m, ynabTransaction m)) (st_matched st) @ [(b, m)]"
    and "st_usedYnabIds (bankStep rt tol ys st b) = insert (id_tx m) (st_usedYnabIds st)"
    and "st_unmatchedBank (bankStep rt tol ys st b) = st_unmatchedBank st"
  using assms by (simp_all add: bankStep_def Let_def findBest_spec)

lemma foldl_bankStep_spec:
  "specGreedy rt tol ys (st_usedYnabIds st) bs = (ps, us) \<Longrightarrow>
     map (\<lambda>m. (bankTransaction m, ynabTransaction m))
         (st_matched (foldl (bankStep rt tol ys) st bs))
       = map (\<lambda>m. (bankTransaction m, ynabTransaction m)) (st_matched st) @ ps
   \<and> st_unmatchedBank (foldl (bankStep rt tol ys) st bs) = st_unmatchedBank st @ us"
proof (induction bs arbitrary: st ps us)
  case Nil
  then show ?case by simp
next
  case (Cons b bs)
  let ?st = "bankStep rt tol ys st b"
  show ?case
  proof (cases "specBestCandidate rt tol (st_usedYnabIds st) b ys")
    case None
    note s = bankStep_unmatched [OF None]
    obtain ps' us' where rec: "specGreedy rt tol ys (st_usedYnabIds st) bs = (ps', us')"
      by (cases "specGreedy rt tol ys (st_usedYnabIds st) bs")
    with Cons.prems None have ps: "ps = ps'" and us: "us = b # us'"
      by simp_all
    from rec have "specGreedy rt tol ys (st_usedYnabIds ?st) bs = (ps', us')"
      by (simp add: s(2))
    from Cons.IH [OF this] show ?thesis
      by (simp add: s ps us)
  next
    case (Some m)
    note s = bankStep_matched [OF Some]
    obtain ps' us' where
      rec: "specGreedy rt tol ys (insert (id_tx m) (st_usedYnabIds st)) bs = (ps', us')"
      by (cases "specGreedy rt tol ys (insert (id_tx m) (st_usedYnabIds st)) bs")
    with Cons.prems Some have ps: "ps = (b, m) # ps'" and us: "us = us'"
      by simp_all
    from rec have "specGreedy rt tol ys (st_usedYnabIds ?st) bs = (ps', us')"
      by (simp add: s(2))
    from Cons.IH [OF this] show ?thesis
      by (simp add: s ps us)
  qed
qed

lemma matchTransactions_spec:
  "(map (\<lambda>m. (bankTransaction m, ynabTransaction m)) (matched (matchTransactions rt tol bs ys)),
    unmatchedBank (matchTransactions rt tol bs ys))
     = specGreedy rt tol ys {} (sortedBankTransactions bs)"
proof -
  obtain ps us where rec: "specGreedy rt tol ys {} (sortedBankTransactions bs) = (ps, us)"
    by (cases "specGreedy rt tol ys {} (sortedBankTransactions bs)")
  then have "specGreedy rt tol ys (st_usedYnabIds initMatching) (sortedBankTransactions bs)
               = (ps, us)"
    by (simp add: initMatching_def)
  from foldl_bankStep_spec [OF this] show ?thesis
    by (simp add: matchTransactions_def Let_def rec initMatching_def)
qed

lemma specGreedy_no_pair:
  "fst (specGreedy rt tol ys U bs) = []
     \<longleftrightarrow> (\<forall>b \<in> set bs. \<forall>y \<in> set ys. \<not> eligible rt tol U b y)"
proof (induction bs)
  case Nil
  show ?case by simp
next
  case (Cons b bs)
  show ?case
  proof (cases "specBestCandidate rt tol U b ys")
    case None
    then have "\<forall>y \<in> set ys. \<not> eligible rt tol U b y"
      by (simp add: specBestCandidate_None_iff)
    with Cons None show ?thesis
      by (cases "specGreedy rt tol ys U bs") simp
  next
    case (Some m)
    then have "\<not> (\<forall>y \<in> set ys. \<not> eligible rt tol U b y)"
      using specBestCandidate_None_iff [of rt tol U b ys] by simp
    with Some show ?thesis
      by (cases "specGreedy rt tol ys (insert (id_tx m) U) bs") auto
  qed
qed

section \<open>The result of the matching\<close>

text \<open>
  C1. For every list of bank transactions, every list of ledger transactions and every
  tolerance, the result of the matching partitions the inputs: the matched pairs and the
  unmatched bank transactions together are the bank transactions (the lengths add up, and
  so do the multisets); no ledger id is matched twice; no ledger id is both matched and
  unmatched; the matched and the unmatched ids together are the ids of the ledger
  transactions; the unmatched ledger transactions are a subsequence of the ledger
  transactions; and, the ledger ids being unique as the data model has them, no id occurs
  twice in the matched and unmatched lists taken together.
\<close>

theorem matchTransactions_partition:
  "(let res = matchTransactions rt tolerance bankTransactions ynabTransactions;
        matchedIds = map (\<lambda>m. id_tx (ynabTransaction m)) (matched res);
        unmatchedIds = map id_tx (unmatchedYNAB res)
    in length (matched res) + length (unmatchedBank res) = length bankTransactions
     \<and> mset (map bankTransaction (matched res)) + mset (unmatchedBank res)
         = mset bankTransactions
     \<and> distinct matchedIds
     \<and> set matchedIds \<inter> set unmatchedIds = {}
     \<and> set matchedIds \<union> set unmatchedIds = set (map id_tx ynabTransactions)
     \<and> subseq (unmatchedYNAB res) ynabTransactions
     \<and> (distinct (map id_tx ynabTransactions) \<longrightarrow> distinct (matchedIds @ unmatchedIds)))"
proof -
  obtain st where inv: "matchingInv rt tolerance ynabTransactions
                          (sortedBankTransactions bankTransactions) st"
    and m: "matched (matchTransactions rt tolerance bankTransactions ynabTransactions)
              = st_matched st"
    and u: "unmatchedBank (matchTransactions rt tolerance bankTransactions ynabTransactions)
              = st_unmatchedBank st"
    and y: "unmatchedYNAB (matchTransactions rt tolerance bankTransactions ynabTransactions)
              = filter (\<lambda>t. id_tx t \<notin> st_usedYnabIds st) ynabTransactions"
    using matchTransactions_inv by blast
  note d = matchingInvD [OF inv]
  let ?ids = "map (\<lambda>m. id_tx (ynabTransaction m)) (st_matched st)"
  have ms: "mset (map bankTransaction (st_matched st)) + mset (st_unmatchedBank st)
              = mset bankTransactions"
    using d(1) by (simp add: sortedBankTransactions_def)
  have len: "length (st_matched st) + length (st_unmatchedBank st) = length bankTransactions"
    using arg_cong [OF ms, of size] by simp
  have sub: "set ?ids \<subseteq> set (map id_tx ynabTransactions)"
  proof
    fix i assume "i \<in> set ?ids"
    then obtain k where k: "k < length (st_matched st)"
      and i: "i = id_tx (ynabTransaction (st_matched st ! k))"
      by (auto simp: in_set_conv_nth)
    from d(6) [OF k] have "ynabTransaction (st_matched st ! k) \<in> set ynabTransactions"
      by (auto simp: selectedAt_def Let_def dest: firstBest_mem)
    with i show "i \<in> set (map id_tx ynabTransactions)"
      by auto
  qed
  have disj: "set ?ids \<inter> set (map id_tx (filter (\<lambda>t. id_tx t \<notin> st_usedYnabIds st) ynabTransactions)) = {}"
    using d(2) by (auto intro: rev_image_eqI)
  have cover: "set ?ids \<union> set (map id_tx (filter (\<lambda>t. id_tx t \<notin> st_usedYnabIds st) ynabTransactions))
                 = set (map id_tx ynabTransactions)"
    using d(2) sub by auto
  have dist: "distinct (?ids @ map id_tx (filter (\<lambda>t. id_tx t \<notin> st_usedYnabIds st) ynabTransactions))"
    if "distinct (map id_tx ynabTransactions)"
    using that d(3) disj by (simp add: distinct_map_filter)
  have sub_y: "subseq (filter (\<lambda>t. id_tx t \<notin> st_usedYnabIds st) ynabTransactions) ynabTransactions"
    by simp
  show ?thesis
    unfolding Let_def m u y
    using len ms d(3) disj cover sub_y dist by blast
qed


subsection \<open>From a run of \<^verbatim>\<open>matchBankTransactions\<close> to the matching\<close>

lemma matched_nth_props:
  assumes "k < length (matched (matchTransactions rt tol bs ys))"
  shows "selectedAt rt tol ys (matched (matchTransactions rt tol bs ys)) k"
proof -
  obtain st where inv: "matchingInv rt tol ys (sortedBankTransactions bs) st"
    and m: "matched (matchTransactions rt tol bs ys) = st_matched st"
    using matchTransactions_inv by blast
  from assms show ?thesis
    unfolding m by (rule matchingInvD(6) [OF inv])
qed

lemma matched_props:
  assumes "m \<in> set (matched (matchTransactions rt tol bs ys))"
  shows "bankTransaction m \<in> set bs"
    and "ynabTransaction m \<in> set ys"
    and "assess rt tol (bankTransaction m) (ynabTransaction m)
           = Some (matchConfidence m, matchReasons m)"
proof -
  let ?res = "matchTransactions rt tol bs ys"
  obtain st where inv: "matchingInv rt tol ys (sortedBankTransactions bs) st"
    and ms: "matched ?res = st_matched st"
    using matchTransactions_inv by blast
  have "set_mset (mset (map bankTransaction (st_matched st)) + mset (st_unmatchedBank st))
          = set_mset (mset (sortedBankTransactions bs))"
    using matchingInvD(1) [OF inv] by simp
  then have "set (map bankTransaction (st_matched st)) \<subseteq> set bs"
    by (auto simp: sortedBankTransactions_def)
  with assms show "bankTransaction m \<in> set bs"
    unfolding ms by auto
  from assms obtain k where k: "k < length (matched ?res)" and mk: "m = matched ?res ! k"
    by (auto simp: in_set_conv_nth)
  from matched_nth_props [OF k] mk
  show "ynabTransaction m \<in> set ys"
    and "assess rt tol (bankTransaction m) (ynabTransaction m)
           = Some (matchConfidence m, matchReasons m)"
    by (auto simp: selectedAt_def Let_def dest: firstBest_mem)
qed

lemma matched_ids_distinct:
  "distinct (map (\<lambda>m. id_tx (ynabTransaction m)) (matched (matchTransactions rt tol bs ys)))"
proof -
  obtain st where inv: "matchingInv rt tol ys (sortedBankTransactions bs) st"
    and m: "matched (matchTransactions rt tol bs ys) = st_matched st"
    using matchTransactions_inv by blast
  show ?thesis
    unfolding m by (rule matchingInvD(3) [OF inv])
qed

lemma min2_not_NaN: "min2 x y \<noteq> NaN \<Longrightarrow> x \<noteq> NaN \<and> y \<noteq> NaN"
  by (cases x; cases y) simp_all

lemma mathMin_not_NaN: "mathMin (map getTime ds) \<noteq> NaN \<Longrightarrow> None \<notin> set ds"
proof (induction ds)
  case Nil
  show ?case by simp
next
  case (Cons d ds)
  from Cons.prems have "min2 (getTime d) (mathMin (map getTime ds)) \<noteq> NaN"
    by (simp add: mathMin_def)
  then have "getTime d \<noteq> NaN" "mathMin (map getTime ds) \<noteq> NaN"
    by (auto dest: min2_not_NaN)
  with Cons.IH show ?case
    by (cases d) auto
qed

lemma date_le_valid: "date_le a b \<Longrightarrow> a \<noteq> None"
  by (cases a; cases b) simp_all

lemma matchBankTransactions_Inr:
  assumes "matchBankTransactions rt api budgetId accountId bs tol = Inr res"
  obtains ys where "res = matchTransactions rt tol bs ys"
    and "\<forall>y \<in> set ys. parseDate rt (date y) \<noteq> None"
    and "\<forall>b \<in> set bs. parseDate rt (bank_date b) \<noteq> None"
    and "bs \<noteq> []"
proof -
  let ?dates = "map (\<lambda>t. parseDate rt (bank_date t)) bs"
  let ?min = "setDateOffset rt (newDate (mathMin (map getTime ?dates))) (- tol)"
  let ?max = "setDateOffset rt (newDate (mathMax (map getTime ?dates))) tol"
  from assms obtain t where t: "?min = Some t"
    by (cases ?min) (auto simp: matchBankTransactions_def Let_def)
  then have valid: "newDate (mathMin (map getTime ?dates)) \<noteq> None"
    by (cases "newDate (mathMin (map getTime ?dates))") auto
  then have "mathMin (map getTime ?dates) \<noteq> NaN"
    by auto
  then have none: "None \<notin> set ?dates"
    by (rule mathMin_not_NaN)
  have banks: "\<forall>b \<in> set bs. parseDate rt (bank_date b) \<noteq> None"
  proof
    fix b assume "b \<in> set bs"
    then have "parseDate rt (bank_date b) \<in> set ?dates"
      by simp
    with none show "parseDate rt (bank_date b) \<noteq> None"
      by metis
  qed
  from valid have ne: "bs \<noteq> []"
    by (auto simp: mathMin_def)
  from assms t obtain txs where
    "getAccountTransactions api budgetId accountId (Some (isoDay rt t)) = Inr txs"
    and res: "res = matchTransactions rt tol bs
                      (filter (\<lambda>y. date_le (parseDate rt (date y)) ?max) txs)"
    by (cases "getAccountTransactions api budgetId accountId (Some (isoDay rt t))")
       (auto simp: matchBankTransactions_def Let_def)
  have window: "\<forall>y \<in> set (filter (\<lambda>y. date_le (parseDate rt (date y)) ?max) txs).
          parseDate rt (date y) \<noteq> None"
    using date_le_valid by fastforce
  from res window banks ne show thesis
    by (rule that)
qed

lemma dateDifference_valid:
  assumes "parseDate rt d1 \<noteq> None" "parseDate rt d2 \<noteq> None"
  obtains d where "dateDifference rt d1 d2 = Some d"
  using assms by (auto simp: dateDifference_def Let_def)


section \<open>Eligibility, confidence and selection\<close>

text \<open>
  C7. A ledger transaction that has been consumed, or whose day count exceeds the tolerance,
  or whose amount differs from the bank amount in milliunits by more than 1000 (by 1500, for
  one), leaves the variables of the inner loop as they are: it is not scored, whatever its
  date and payee. A pair with valid dates that is scored has a day count at most the
  tolerance and amounts that differ by at most 1000 milliunits. And in every result of
  \<^verbatim>\<open>matchBankTransactions\<close> no ledger id is consumed by two matches, and every matched
  pair has a day count that is a number at most the tolerance and amounts that differ by at
  most 1000 milliunits, so never by 1500.
\<close>

theorem candidate_eligibility:
  "(\<forall>b. id_tx ynabTx \<in> usedYnabIds
         \<or> days_gt (dateDifference rt (bank_date bankTx) (date ynabTx)) tolerance
         \<or> \<bar>toMilliunits rt (bank_amount bankTx) - amount ynabTx\<bar> > 1000
       \<longrightarrow> candidateStep rt tolerance usedYnabIds bankTx b ynabTx = b)
   \<and> (\<forall>conf reasons.
         assess rt tolerance bankTx ynabTx = Some (conf, reasons)
       \<and> parseDate rt (bank_date bankTx) \<noteq> None \<and> parseDate rt (date ynabTx) \<noteq> None
       \<longrightarrow> (\<exists>d. dateDifference rt (bank_date bankTx) (date ynabTx) = Some d
                \<and> of_int d \<le> tolerance)
         \<and> \<bar>toMilliunits rt (bank_amount bankTx) - amount ynabTx\<bar> \<le> 1000)
   \<and> (\<forall>res. matchBankTransactions rt api budgetId accountId bankTransactions tolerance = Inr res
       \<longrightarrow> distinct (map (\<lambda>m. id_tx (ynabTransaction m)) (matched res))
         \<and> (\<forall>m \<in> set (matched res).
              (\<exists>d. dateDifference rt (bank_date (bankTransaction m)) (date (ynabTransaction m))
                     = Some d
                 \<and> of_int d \<le> tolerance)
            \<and> \<bar>toMilliunits rt (bank_amount (bankTransaction m)) - amount (ynabTransaction m)\<bar>
                 \<le> 1000
            \<and> \<bar>toMilliunits rt (bank_amount (bankTransaction m)) - amount (ynabTransaction m)\<bar>
                 \<noteq> 1500))"
proof (intro conjI allI impI)
  fix b
  assume skip: "id_tx ynabTx \<in> usedYnabIds
         \<or> days_gt (dateDifference rt (bank_date bankTx) (date ynabTx)) tolerance
         \<or> \<bar>toMilliunits rt (bank_amount bankTx) - amount ynabTx\<bar> > 1000"
  have "\<not> eligible rt tolerance usedYnabIds bankTx ynabTx"
  proof
    assume "eligible rt tolerance usedYnabIds bankTx ynabTx"
    then obtain c r where "id_tx ynabTx \<notin> usedYnabIds"
      and "assess rt tolerance bankTx ynabTx = Some (c, r)"
      by (auto simp: eligible_assess)
    with skip assess_Some(1,2) [of rt tolerance bankTx ynabTx c r] show False
      by auto
  qed
  then show "candidateStep rt tolerance usedYnabIds bankTx b ynabTx = b"
    by (rule candidateStep_not_eligible)
next
  fix conf reasons
  assume "assess rt tolerance bankTx ynabTx = Some (conf, reasons)
       \<and> parseDate rt (bank_date bankTx) \<noteq> None \<and> parseDate rt (date ynabTx) \<noteq> None"
  then have a: "assess rt tolerance bankTx ynabTx = Some (conf, reasons)"
    and valid: "parseDate rt (bank_date bankTx) \<noteq> None" "parseDate rt (date ynabTx) \<noteq> None"
    by simp_all
  from valid obtain d where d: "dateDifference rt (bank_date bankTx) (date ynabTx) = Some d"
    by (rule dateDifference_valid)
  note g = assess_Some [OF a]
  from g(1) d have "of_int d \<le> tolerance"
    by simp
  with d show "\<exists>d. dateDifference rt (bank_date bankTx) (date ynabTx) = Some d
                \<and> of_int d \<le> tolerance"
    by blast
  from g(2) show "\<bar>toMilliunits rt (bank_amount bankTx) - amount ynabTx\<bar> \<le> 1000" .
next
  fix res
  assume run: "matchBankTransactions rt api budgetId accountId bankTransactions tolerance = Inr res"
  then obtain ys where res: "res = matchTransactions rt tolerance bankTransactions ys"
    and ydates: "\<forall>y \<in> set ys. parseDate rt (date y) \<noteq> None"
    and bdates: "\<forall>b \<in> set bankTransactions. parseDate rt (bank_date b) \<noteq> None"
    by (rule matchBankTransactions_Inr)
  show "distinct (map (\<lambda>m. id_tx (ynabTransaction m)) (matched res))"
    unfolding res by (rule matched_ids_distinct)
  show "\<forall>m \<in> set (matched res).
              (\<exists>d. dateDifference rt (bank_date (bankTransaction m)) (date (ynabTransaction m))
                     = Some d
                 \<and> of_int d \<le> tolerance)
            \<and> \<bar>toMilliunits rt (bank_amount (bankTransaction m)) - amount (ynabTransaction m)\<bar>
                 \<le> 1000
            \<and> \<bar>toMilliunits rt (bank_amount (bankTransaction m)) - amount (ynabTransaction m)\<bar>
                 \<noteq> 1500"
  proof
    fix m assume "m \<in> set (matched res)"
    then have m: "m \<in> set (matched (matchTransactions rt tolerance bankTransactions ys))"
      by (simp add: res)
    note p = matched_props [OF m]
    from p(1) bdates have "parseDate rt (bank_date (bankTransaction m)) \<noteq> None"
      by blast
    moreover from p(2) ydates have "parseDate rt (date (ynabTransaction m)) \<noteq> None"
      by blast
    ultimately obtain d where
      d: "dateDifference rt (bank_date (bankTransaction m)) (date (ynabTransaction m)) = Some d"
      by (rule dateDifference_valid)
    note a = assess_Some [OF p(3)]
    from a(1) d have "of_int d \<le> tolerance"
      by simp
    with d a(2) show "(\<exists>d. dateDifference rt (bank_date (bankTransaction m))
                            (date (ynabTransaction m)) = Some d
                 \<and> of_int d \<le> tolerance)
            \<and> \<bar>toMilliunits rt (bank_amount (bankTransaction m)) - amount (ynabTransaction m)\<bar>
                 \<le> 1000
            \<and> \<bar>toMilliunits rt (bank_amount (bankTransaction m)) - amount (ynabTransaction m)\<bar>
                 \<noteq> 1500"
      by auto
  qed
qed

text \<open>
  C8. For every eligible pair with valid dates the confidence is given by the first rule
  that applies: \<open>Exact\<close> when the amount is exactly equal, the day count is 0 and the payee
  score is 1; \<open>High\<close> when the amount is exactly equal, the day count is at most 1 and the
  payee score exceeds 1/2; \<open>Medium\<close> when the amount is exactly equal and the day count is
  at most the tolerance; \<open>Low\<close> otherwise, which is exactly when the amount is not equal
  (and then it is within the slack). Every matched pair of a result of
  \<^verbatim>\<open>matchBankTransactions\<close> is such a pair, and records that confidence.
\<close>

theorem confidence_tier:
  "(\<forall>conf reasons d.
       assess rt tolerance bankTx ynabTx = Some (conf, reasons)
     \<and> dateDifference rt (bank_date bankTx) (date ynabTx) = Some d
     \<longrightarrow> (let exact = (toMilliunits rt (bank_amount bankTx) = amount ynabTx);
              sim = payeeSimilarity (payee bankTx) (payee_name ynabTx)
          in conf = (if exact \<and> d = 0 \<and> sim = 1 then Exact
                     else if exact \<and> d \<le> 1 \<and> sim > 1 / 2 then High
                     else if exact \<and> of_int d \<le> tolerance then Medium
                     else Low)
           \<and> (conf = Low \<longleftrightarrow> \<not> exact)
           \<and> (\<not> exact \<longrightarrow> \<bar>toMilliunits rt (bank_amount bankTx) - amount ynabTx\<bar> \<le> 1000)))
   \<and> (\<forall>res. matchBankTransactions rt api budgetId accountId bankTransactions tolerance = Inr res
       \<longrightarrow> (\<forall>m \<in> set (matched res).
              assess rt tolerance (bankTransaction m) (ynabTransaction m)
                = Some (matchConfidence m, matchReasons m)
            \<and> dateDifference rt (bank_date (bankTransaction m)) (date (ynabTransaction m))
                \<noteq> None))"
proof (intro conjI allI impI)
  fix conf reasons d
  assume "assess rt tolerance bankTx ynabTx = Some (conf, reasons)
     \<and> dateDifference rt (bank_date bankTx) (date ynabTx) = Some d"
  then have a: "assess rt tolerance bankTx ynabTx = Some (conf, reasons)"
    and d: "dateDifference rt (bank_date bankTx) (date ynabTx) = Some d"
    by simp_all
  note g = assess_Some [OF a]
  from g(1) d have tol: "of_int d \<le> tolerance"
    by simp
  show "let exact = (toMilliunits rt (bank_amount bankTx) = amount ynabTx);
              sim = payeeSimilarity (payee bankTx) (payee_name ynabTx)
          in conf = (if exact \<and> d = 0 \<and> sim = 1 then Exact
                     else if exact \<and> d \<le> 1 \<and> sim > 1 / 2 then High
                     else if exact \<and> of_int d \<le> tolerance then Medium
                     else Low)
           \<and> (conf = Low \<longleftrightarrow> \<not> exact)
           \<and> (\<not> exact \<longrightarrow> \<bar>toMilliunits rt (bank_amount bankTx) - amount ynabTx\<bar> \<le> 1000)"
    unfolding Let_def g(3) d confidenceLevel_def
    using tol g(2) by simp
next
  fix res
  assume run: "matchBankTransactions rt api budgetId accountId bankTransactions tolerance = Inr res"
  then obtain ys where res: "res = matchTransactions rt tolerance bankTransactions ys"
    and ydates: "\<forall>y \<in> set ys. parseDate rt (date y) \<noteq> None"
    and bdates: "\<forall>b \<in> set bankTransactions. parseDate rt (bank_date b) \<noteq> None"
    by (rule matchBankTransactions_Inr)
  show "\<forall>m \<in> set (matched res).
              assess rt tolerance (bankTransaction m) (ynabTransaction m)
                = Some (matchConfidence m, matchReasons m)
            \<and> dateDifference rt (bank_date (bankTransaction m)) (date (ynabTransaction m))
                \<noteq> None"
  proof
    fix m assume "m \<in> set (matched res)"
    then have m: "m \<in> set (matched (matchTransactions rt tolerance bankTransactions ys))"
      by (simp add: res)
    note p = matched_props [OF m]
    from p(1) bdates have "parseDate rt (bank_date (bankTransaction m)) \<noteq> None"
      by blast
    moreover from p(2) ydates have "parseDate rt (date (ynabTransaction m)) \<noteq> None"
      by blast
    ultimately obtain d where
      "dateDifference rt (bank_date (bankTransaction m)) (date (ynabTransaction m)) = Some d"
      by (rule dateDifference_valid)
    with p(3) show "assess rt tolerance (bankTransaction m) (ynabTransaction m)
                = Some (matchConfidence m, matchReasons m)
            \<and> dateDifference rt (bank_date (bankTransaction m)) (date (ynabTransaction m))
                \<noteq> None"
      by simp
  qed
qed

text \<open>
  C9. The bank transactions are processed in the order of a sort by descending absolute
  amount (a permutation of the input that keeps the input order among equal absolute
  amounts), so the matched and the unmatched bank transactions are subsequences of that
  order; no ledger id is consumed by two matches; each match pairs its bank transaction
  with the first ledger transaction, in fetch order, of the highest tier among those that
  are eligible and not consumed by an earlier match, the tiers being ranked low, medium,
  high, exact. The matching is the greedy matching of the specification on the sorted
  bank transactions: in that order, a bank transaction with an eligible ledger transaction
  that no earlier match has consumed is matched, with the first of the highest tier, and
  one with none is unmatched. So no ledger transaction that is left at the end is eligible
  for an unmatched bank transaction, and nothing is matched only when no ledger transaction
  is eligible for any bank transaction.
\<close>

theorem greedy_matching:
  "(let res = matchTransactions rt tolerance bankTransactions ynabTransactions;
        sortedBank = sortedBankTransactions bankTransactions
    in sorted_wrt (\<lambda>a b. \<bar>bank_amount a\<bar> \<ge> \<bar>bank_amount b\<bar>) sortedBank
     \<and> mset sortedBank = mset bankTransactions
     \<and> (\<forall>x. filter (\<lambda>t. \<bar>bank_amount t\<bar> = x) sortedBank
              = filter (\<lambda>t. \<bar>bank_amount t\<bar> = x) bankTransactions)
     \<and> subseq (map bankTransaction (matched res)) sortedBank
     \<and> subseq (unmatchedBank res) sortedBank
     \<and> sorted_wrt (\<lambda>a b. \<bar>bank_amount a\<bar> \<ge> \<bar>bank_amount b\<bar>)
         (map bankTransaction (matched res))
     \<and> distinct (map (\<lambda>m. id_tx (ynabTransaction m)) (matched res))
     \<and> (\<forall>k < length (matched res). selectedAt rt tolerance ynabTransactions (matched res) k)
     \<and> (map (\<lambda>m. (bankTransaction m, ynabTransaction m)) (matched res), unmatchedBank res)
         = specGreedy rt tolerance ynabTransactions {} sortedBank
     \<and> (\<forall>b \<in> set (unmatchedBank res). \<forall>y \<in> set ynabTransactions.
           \<not> eligible rt tolerance
               (set (map (\<lambda>m. id_tx (ynabTransaction m)) (matched res))) b y)
     \<and> (matched res = []
          \<longleftrightarrow> (\<forall>b \<in> set bankTransactions. \<forall>y \<in> set ynabTransactions.
                 \<not> eligible rt tolerance {} b y)))"
proof -
  obtain st where inv: "matchingInv rt tolerance ynabTransactions
                          (sortedBankTransactions bankTransactions) st"
    and m: "matched (matchTransactions rt tolerance bankTransactions ynabTransactions)
              = st_matched st"
    and u: "unmatchedBank (matchTransactions rt tolerance bankTransactions ynabTransactions)
              = st_unmatchedBank st"
    using matchTransactions_inv by blast
  note d = matchingInvD [OF inv]
  note srt = sortedBankTransactions_sorted [of bankTransactions]
  have ms: "mset (sortedBankTransactions bankTransactions) = mset bankTransactions"
    by (simp add: sortedBankTransactions_def)
  have stable: "\<forall>x. filter (\<lambda>t. \<bar>bank_amount t\<bar> = x) (sortedBankTransactions bankTransactions)
                     = filter (\<lambda>t. \<bar>bank_amount t\<bar> = x) bankTransactions"
  proof
    fix x
    show "filter (\<lambda>t. \<bar>bank_amount t\<bar> = x) (sortedBankTransactions bankTransactions)
            = filter (\<lambda>t. \<bar>bank_amount t\<bar> = x) bankTransactions"
      using sort_key_stable [of "\<lambda>t. - \<bar>bank_amount t\<bar>" "- x" bankTransactions]
      by (simp add: sortedBankTransactions_def)
  qed
  have srt': "sorted_wrt (\<lambda>a b. \<bar>bank_amount a\<bar> \<ge> \<bar>bank_amount b\<bar>)
                (map bankTransaction (st_matched st))"
    using d(4) srt by (rule sorted_wrt_subseq)
  have spec: "(map (\<lambda>m. (bankTransaction m, ynabTransaction m)) (st_matched st),
               st_unmatchedBank st)
      = specGreedy rt tolerance ynabTransactions {} (sortedBankTransactions bankTransactions)"
    using matchTransactions_spec [of rt tolerance bankTransactions ynabTransactions]
    by (simp only: m u)
  have left: "\<forall>b \<in> set (st_unmatchedBank st). \<forall>y \<in> set ynabTransactions.
           \<not> eligible rt tolerance
               (set (map (\<lambda>m. id_tx (ynabTransaction m)) (st_matched st))) b y"
    using d(7) unfolding d(2) by blast
  have "st_matched st = []
      \<longleftrightarrow> fst (specGreedy rt tolerance ynabTransactions {}
                 (sortedBankTransactions bankTransactions)) = []"
    unfolding spec [symmetric] by simp
  also have "\<dots> \<longleftrightarrow> (\<forall>b \<in> set (sortedBankTransactions bankTransactions).
                      \<forall>y \<in> set ynabTransactions. \<not> eligible rt tolerance {} b y)"
    by (rule specGreedy_no_pair)
  also have "\<dots> \<longleftrightarrow> (\<forall>b \<in> set bankTransactions.
                      \<forall>y \<in> set ynabTransactions. \<not> eligible rt tolerance {} b y)"
    by (simp add: sortedBankTransactions_def)
  finally have none: "st_matched st = []
      \<longleftrightarrow> (\<forall>b \<in> set bankTransactions.
             \<forall>y \<in> set ynabTransactions. \<not> eligible rt tolerance {} b y)" .
  have part1: "sorted_wrt (\<lambda>a b. \<bar>bank_amount a\<bar> \<ge> \<bar>bank_amount b\<bar>)
                 (sortedBankTransactions bankTransactions)
     \<and> mset (sortedBankTransactions bankTransactions) = mset bankTransactions
     \<and> (\<forall>x. filter (\<lambda>t. \<bar>bank_amount t\<bar> = x) (sortedBankTransactions bankTransactions)
              = filter (\<lambda>t. \<bar>bank_amount t\<bar> = x) bankTransactions)
     \<and> subseq (map bankTransaction (st_matched st)) (sortedBankTransactions bankTransactions)
     \<and> subseq (st_unmatchedBank st) (sortedBankTransactions bankTransactions)
     \<and> sorted_wrt (\<lambda>a b. \<bar>bank_amount a\<bar> \<ge> \<bar>bank_amount b\<bar>)
         (map bankTransaction (st_matched st))
     \<and> distinct (map (\<lambda>m. id_tx (ynabTransaction m)) (st_matched st))
     \<and> (\<forall>k < length (st_matched st). selectedAt rt tolerance ynabTransactions (st_matched st) k)"
    using srt ms stable d(4) d(5) srt' d(3) d(6) by blast
  show ?thesis
    unfolding Let_def m u
    using part1 spec left none by blast
qed

section \<open>The matching on the example\<close>

lemma exMatch:
  "matchTransactions utcRuntime 3 exBank exTransactions
   = \<lparr>matched =
        [\<lparr>bankTransaction =
            \<lparr>bank_date = ''2024-03-01'', bank_amount = - 45, payee = Some ''Acme Store''\<rparr>,
          ynabTransaction = exTx ''t1'' ''2024-03-01'' (- 45000) (Some ''Acme Store'') Uncleared,
          matchConfidence = Exact,
          matchReasons = [ExactAmountMatch, SameDate, ExactPayeeMatch]\<rparr>,
         \<lparr>bankTransaction =
            \<lparr>bank_date = ''2024-03-02'', bank_amount = - 25 / 2,
              payee = Some ''COFFEE BAR 0042''\<rparr>,
          ynabTransaction = exTx ''t2'' ''2024-03-02'' (- 12500) (Some ''Coffee Bar'') Cleared,
          matchConfidence = High,
          matchReasons = [ExactAmountMatch, SameDate, SimilarPayeeName]\<rparr>],
      unmatchedBank = [\<lparr>bank_date = ''2024-03-03'', bank_amount = - 8, payee = None\<rparr>],
      unmatchedYNAB = [exTx ''t3'' ''2024-02-20'' 250000 (Some ''Payroll'') Reconciled],
      summary = \<lparr>totalBankTransactions = 3, totalYNABTransactions = 3, matchedCount = 2,
                 matchRate = 2 / 3\<rparr>\<rparr>"
  by code_simp

lemma exFetchMatch:
  "matchBankTransactions utcRuntime (fetchLedger exTransactions) ''budget-1'' ''acct-1'' exBank 3
     = Inr (matchTransactions utcRuntime 3 exBank exTransactions)"
  unfolding exMatch by code_simp

text \<open>The partition of the example: three bank transactions, two of them matched, and
  three ledger transactions with distinct ids.\<close>

theorem matchTransactions_partition_witness:
  "distinct (map id_tx exTransactions)
   \<and> length (matched (matchTransactions utcRuntime 3 exBank exTransactions))
       + length (unmatchedBank (matchTransactions utcRuntime 3 exBank exTransactions)) = 3
   \<and> distinct (map (\<lambda>m. id_tx (ynabTransaction m))
                  (matched (matchTransactions utcRuntime 3 exBank exTransactions))
               @ map id_tx (unmatchedYNAB (matchTransactions utcRuntime 3 exBank exTransactions)))"
proof -
  have ids: "distinct (map id_tx exTransactions)"
    by code_simp
  have len: "length exBank = 3"
    by (simp add: exBank_def)
  from matchTransactions_partition [of utcRuntime 3 exBank exTransactions] ids len
  show ?thesis
    unfolding Let_def by simp
qed

text \<open>A ledger transaction on the same day, with the same payee, whose amount differs by
  1500 milliunits is skipped; and the second match of the example passes the tests.\<close>

theorem candidate_eligibility_witness:
  "\<bar>toMilliunits utcRuntime (- 45) - (- 46500)\<bar> > 1000
   \<and> candidateStep utcRuntime 3 {}
       \<lparr>bank_date = ''2024-03-01'', bank_amount = - 45, payee = Some ''Acme Store''\<rparr>
       initBest
       (exTx ''t9'' ''2024-03-01'' (- 46500) (Some ''Acme Store'') Uncleared)
     = initBest
   \<and> matchBankTransactions utcRuntime (fetchLedger exTransactions) ''budget-1'' ''acct-1''
       exBank 3
     = Inr (matchTransactions utcRuntime 3 exBank exTransactions)
   \<and> (\<exists>d. dateDifference utcRuntime ''2024-03-02'' ''2024-03-02'' = Some d \<and> of_int d \<le> (3::rat))
   \<and> \<bar>toMilliunits utcRuntime (- 25 / 2) - (- 12500)\<bar> \<le> 1000"
proof -
  let ?b = "\<lparr>bank_date = ''2024-03-01'', bank_amount = - 45, payee = Some ''Acme Store''\<rparr>"
  let ?y = "exTx ''t9'' ''2024-03-01'' (- 46500) (Some ''Acme Store'') Uncleared"
  have far: "\<bar>toMilliunits utcRuntime (- 45) - (- 46500)\<bar> > 1000"
    by code_simp
  then have far': "\<bar>toMilliunits utcRuntime (bank_amount ?b) - amount ?y\<bar> > 1000"
    by (simp add: exTx_def)
  note t = candidate_eligibility [of ?y "{}" utcRuntime ?b 3 "fetchLedger exTransactions"
      "''budget-1''" "''acct-1''" exBank]
  from t far' have skipped: "candidateStep utcRuntime 3 {} ?b initBest ?y = initBest"
    by blast
  from t exFetchMatch have
    "\<forall>m \<in> set (matched (matchTransactions utcRuntime 3 exBank exTransactions)).
        (\<exists>d. dateDifference utcRuntime (bank_date (bankTransaction m))
                (date (ynabTransaction m)) = Some d \<and> of_int d \<le> (3::rat))
      \<and> \<bar>toMilliunits utcRuntime (bank_amount (bankTransaction m))
           - amount (ynabTransaction m)\<bar> \<le> 1000"
    by blast
  then have second:
    "(\<exists>d. dateDifference utcRuntime ''2024-03-02'' ''2024-03-02'' = Some d \<and> of_int d \<le> (3::rat))
     \<and> \<bar>toMilliunits utcRuntime (- 25 / 2) - (- 12500)\<bar> \<le> 1000"
    unfolding exMatch by (simp add: exTx_def)
  from far skipped exFetchMatch second show ?thesis
    by blast
qed


text \<open>The scenario of the specification: same amount, same day, same payee gives
  \<open>Exact\<close>; the second match of the example is \<open>High\<close>.\<close>

theorem confidence_tier_witness:
  "assess utcRuntime 3
     \<lparr>bank_date = ''2024-03-01'', bank_amount = - 45, payee = Some ''Acme Store''\<rparr>
     (exTx ''t1'' ''2024-03-01'' (- 45000) (Some ''Acme Store'') Uncleared)
     = Some (Exact, [ExactAmountMatch, SameDate, ExactPayeeMatch])
   \<and> dateDifference utcRuntime ''2024-03-01'' ''2024-03-01'' = Some 0
   \<and> toMilliunits utcRuntime (- 45) = - 45000
   \<and> payeeSimilarity (Some ''Acme Store'') (Some ''Acme Store'') = 1
   \<and> matchBankTransactions utcRuntime (fetchLedger exTransactions) ''budget-1'' ''acct-1''
       exBank 3
     = Inr (matchTransactions utcRuntime 3 exBank exTransactions)
   \<and> assess utcRuntime 3
       \<lparr>bank_date = ''2024-03-02'', bank_amount = - 25 / 2, payee = Some ''COFFEE BAR 0042''\<rparr>
       (exTx ''t2'' ''2024-03-02'' (- 12500) (Some ''Coffee Bar'') Cleared)
     = Some (High, [ExactAmountMatch, SameDate, SimilarPayeeName])"
proof -
  let ?b = "\<lparr>bank_date = ''2024-03-01'', bank_amount = - 45, payee = Some ''Acme Store''\<rparr>"
  let ?y = "exTx ''t1'' ''2024-03-01'' (- 45000) (Some ''Acme Store'') Uncleared"
  have h1: "assess utcRuntime 3 ?b ?y = Some (Exact, [ExactAmountMatch, SameDate, ExactPayeeMatch])"
    by code_simp
  have h2: "dateDifference utcRuntime ''2024-03-01'' ''2024-03-01'' = Some 0"
    by code_simp
  then have h2': "dateDifference utcRuntime (bank_date ?b) (date ?y) = Some 0"
    by (simp add: exTx_def)
  note t = confidence_tier [of utcRuntime 3 ?b ?y "fetchLedger exTransactions"
      "''budget-1''" "''acct-1''" exBank]
  from t h1 h2' have
    "Exact = (if toMilliunits utcRuntime (bank_amount ?b) = amount ?y \<and> (0::int) = 0
                 \<and> payeeSimilarity (payee ?b) (payee_name ?y) = 1 then Exact
              else if toMilliunits utcRuntime (bank_amount ?b) = amount ?y \<and> (0::int) \<le> 1
                 \<and> payeeSimilarity (payee ?b) (payee_name ?y) > 1 / 2 then High
              else if toMilliunits utcRuntime (bank_amount ?b) = amount ?y
                 \<and> of_int (0::int) \<le> (3::rat) then Medium
              else Low)"
    unfolding Let_def by blast
  then have first: "toMilliunits utcRuntime (- 45) = - 45000
      \<and> payeeSimilarity (Some ''Acme Store'') (Some ''Acme Store'') = 1"
    by (simp add: exTx_def split: if_splits)
  from t exFetchMatch have
    "\<forall>m \<in> set (matched (matchTransactions utcRuntime 3 exBank exTransactions)).
        assess utcRuntime 3 (bankTransaction m) (ynabTransaction m)
          = Some (matchConfidence m, matchReasons m)"
    by blast
  then have second: "assess utcRuntime 3
       \<lparr>bank_date = ''2024-03-02'', bank_amount = - 25 / 2, payee = Some ''COFFEE BAR 0042''\<rparr>
       (exTx ''t2'' ''2024-03-02'' (- 12500) (Some ''Coffee Bar'') Cleared)
     = Some (High, [ExactAmountMatch, SameDate, SimilarPayeeName])"
    unfolding exMatch by simp
  from h1 h2 first exFetchMatch second show ?thesis
    by blast
qed

text \<open>
  The matching with competing candidates. The bank transaction of 45.00 comes first and
  takes \<open>u2\<close>, the first of the two exact candidates, although the low candidate \<open>u1\<close>
  comes before it in fetch order; the one of 44.80 then takes \<open>u1\<close>, the first of the two
  low candidates that are left; the one of 8.00 is unmatched, the ledger transaction
  \<open>u3\<close> that is left not being eligible for it.
\<close>

lemma exMatchTies:
  "matched (matchTransactions utcRuntime 3 exBankTies exLedgerTies)
     = [\<lparr>bankTransaction =
            \<lparr>bank_date = ''2024-03-01'', bank_amount = - 45, payee = Some ''Acme Store''\<rparr>,
          ynabTransaction = exTx ''u2'' ''2024-03-01'' (- 45000) (Some ''Acme Store'') Uncleared,
          matchConfidence = Exact,
          matchReasons = [ExactAmountMatch, SameDate, ExactPayeeMatch]\<rparr>,
        \<lparr>bankTransaction =
            \<lparr>bank_date = ''2024-03-01'', bank_amount = - 224 / 5, payee = Some ''Acme Store''\<rparr>,
          ynabTransaction = exTx ''u1'' ''2024-03-01'' (- 45500) (Some ''Acme Store'') Uncleared,
          matchConfidence = Low,
          matchReasons = [AmountWithin1 (- 224 / 5) (- 45500), SameDate, ExactPayeeMatch]\<rparr>]"
  "unmatchedBank (matchTransactions utcRuntime 3 exBankTies exLedgerTies)
     = [\<lparr>bank_date = ''2024-03-03'', bank_amount = - 8, payee = None\<rparr>]"
  by code_simp+

theorem greedy_matching_witness:
  "length (matched (matchTransactions utcRuntime 3 exBankTies exLedgerTies)) = 2
   \<and> selectedAt utcRuntime 3 exLedgerTies
       (matched (matchTransactions utcRuntime 3 exBankTies exLedgerTies)) 0
   \<and> selectedAt utcRuntime 3 exLedgerTies
       (matched (matchTransactions utcRuntime 3 exBankTies exLedgerTies)) 1
   \<and> sorted_wrt (\<lambda>a b. \<bar>bank_amount a\<bar> \<ge> \<bar>bank_amount b\<bar>) (sortedBankTransactions exBankTies)
   \<and> specGreedy utcRuntime 3 exLedgerTies {} (sortedBankTransactions exBankTies)
       = ([(\<lparr>bank_date = ''2024-03-01'', bank_amount = - 45, payee = Some ''Acme Store''\<rparr>,
            exTx ''u2'' ''2024-03-01'' (- 45000) (Some ''Acme Store'') Uncleared),
           (\<lparr>bank_date = ''2024-03-01'', bank_amount = - 224 / 5, payee = Some ''Acme Store''\<rparr>,
            exTx ''u1'' ''2024-03-01'' (- 45500) (Some ''Acme Store'') Uncleared)],
          [\<lparr>bank_date = ''2024-03-03'', bank_amount = - 8, payee = None\<rparr>])
   \<and> \<not> eligible utcRuntime 3 {''u2'', ''u1''}
         \<lparr>bank_date = ''2024-03-03'', bank_amount = - 8, payee = None\<rparr>
         (exTx ''u3'' ''2024-03-01'' (- 45000) (Some ''Acme Store'') Uncleared)
   \<and> (\<exists>b \<in> set exBankTies. \<exists>y \<in> set exLedgerTies. eligible utcRuntime 3 {} b y)"
proof -
  let ?res = "matchTransactions utcRuntime 3 exBankTies exLedgerTies"
  have len: "length (matched ?res) = 2"
    unfolding exMatchTies by simp
  note t = greedy_matching [of utcRuntime 3 exBankTies exLedgerTies, unfolded Let_def]
  from t len have s0: "selectedAt utcRuntime 3 exLedgerTies (matched ?res) 0"
    by simp
  from t len have s1: "selectedAt utcRuntime 3 exLedgerTies (matched ?res) 1"
    by simp
  from t have srt:
    "sorted_wrt (\<lambda>a b. \<bar>bank_amount a\<bar> \<ge> \<bar>bank_amount b\<bar>) (sortedBankTransactions exBankTies)"
    by blast
  from t have "(map (\<lambda>m. (bankTransaction m, ynabTransaction m)) (matched ?res),
                unmatchedBank ?res)
      = specGreedy utcRuntime 3 exLedgerTies {} (sortedBankTransactions exBankTies)"
    by blast
  then have spec: "specGreedy utcRuntime 3 exLedgerTies {} (sortedBankTransactions exBankTies)
       = ([(\<lparr>bank_date = ''2024-03-01'', bank_amount = - 45, payee = Some ''Acme Store''\<rparr>,
            exTx ''u2'' ''2024-03-01'' (- 45000) (Some ''Acme Store'') Uncleared),
           (\<lparr>bank_date = ''2024-03-01'', bank_amount = - 224 / 5, payee = Some ''Acme Store''\<rparr>,
            exTx ''u1'' ''2024-03-01'' (- 45500) (Some ''Acme Store'') Uncleared)],
          [\<lparr>bank_date = ''2024-03-03'', bank_amount = - 8, payee = None\<rparr>])"
    unfolding exMatchTies by simp
  from t have "\<forall>b \<in> set (unmatchedBank ?res). \<forall>y \<in> set exLedgerTies.
      \<not> eligible utcRuntime 3 (set (map (\<lambda>m. id_tx (ynabTransaction m)) (matched ?res))) b y"
    by blast
  then have left: "\<not> eligible utcRuntime 3 {''u2'', ''u1''}
         \<lparr>bank_date = ''2024-03-03'', bank_amount = - 8, payee = None\<rparr>
         (exTx ''u3'' ''2024-03-01'' (- 45000) (Some ''Acme Store'') Uncleared)"
    unfolding exMatchTies by (simp add: exLedgerTies_def exTx_def)
  from t have "matched ?res = []
      \<longleftrightarrow> (\<forall>b \<in> set exBankTies. \<forall>y \<in> set exLedgerTies. \<not> eligible utcRuntime 3 {} b y)"
    by blast
  with len have some: "\<exists>b \<in> set exBankTies. \<exists>y \<in> set exLedgerTies. eligible utcRuntime 3 {} b y"
    by auto
  from len s0 s1 srt spec left some show ?thesis
    by blast
qed

end
